theory Spec2Isabelle
  imports Main "HOL-Library.Word"
begin

section \<open>JavaScript values\<close>

text \<open>
  The route handlers read their input with \<^verbatim>\<open>request.json()\<close> and
  \<^verbatim>\<open>searchParams.get\<close>, so what they work on is untyped: any JSON value, or
  \<^verbatim>\<open>undefined\<close> for a property that is missing. A JavaScript string is a sequence
  of 16-bit code units. A number is given by the text JavaScript prints for it
  (\<^verbatim>\<open>1024\<close>, \<^verbatim>\<open>-5\<close>, \<^verbatim>\<open>1.5\<close>, \<^verbatim>\<open>1e+21\<close>): two numbers are equal exactly
  when they print alike, both zeros print as \<^verbatim>\<open>0\<close>, and the handlers only test a
  number for zero, print it, or hand it to the store. (JSON has no NaN, the one other
  number that is falsy.)
\<close>

type_synonym jstring = "16 word list"

definition lit :: "string \<Rightarrow> jstring" where
  "lit s = map (\<lambda>c. of_nat (of_char c)) s"

datatype jsvalue =
    JUndefined
  | JNull
  | JBool bool
  | JNum jstring
  | JStr jstring
  | JArr "jsvalue list"
  | JObj "(jstring \<times> jsvalue) list"

text \<open>\<^verbatim>\<open>string | null\<close>, as \<^verbatim>\<open>auth()\<close> and \<^verbatim>\<open>searchParams.get\<close> return it.\<close>

fun nullable :: "jstring option \<Rightarrow> jsvalue" where
  "nullable None = JNull"
| "nullable (Some s) = JStr s"

text \<open>ToBoolean: what \<^verbatim>\<open>if (x)\<close>, \<^verbatim>\<open>!x\<close> and \<^verbatim>\<open>x || y\<close> test.\<close>

fun truthy :: "jsvalue \<Rightarrow> bool" where
  "truthy JUndefined = False"
| "truthy JNull = False"
| "truthy (JBool b) = b"
| "truthy (JNum t) = (t \<noteq> lit ''0'')"
| "truthy (JStr s) = (s \<noteq> [])"
| "truthy (JArr xs) = True"
| "truthy (JObj fs) = True"

text \<open>\<^verbatim>\<open>a || b\<close>\<close>

definition js_or :: "jsvalue \<Rightarrow> jsvalue \<Rightarrow> jsvalue" where
  "js_or a b = (if truthy a then a else b)"

text \<open>
  Reading a property \<^verbatim>\<open>v.k\<close> of a value that is neither null nor undefined. An object
  built by \<^verbatim>\<open>JSON.parse\<close> or by an object literal keeps the last of several members
  with one key. The keys the handlers read (name, userId, parentId, imagekit, url,
  filePath, size, fileType, thumbnailUrl) are properties of no string, number, boolean or
  array, nor inherited by an object, so there the result is undefined.
\<close>

fun js_get :: "jsvalue \<Rightarrow> jstring \<Rightarrow> jsvalue" where
  "js_get (JObj fs) k = (case map_of (rev fs) k of None \<Rightarrow> JUndefined | Some v \<Rightarrow> v)"
| "js_get v k = JUndefined"

text \<open>
  ToString, as a template literal applies it. An array prints its elements joined by
  commas, null and undefined elements as nothing. A parsed object prints as
  \<^verbatim>\<open>[object Object]\<close> through \<^verbatim>\<open>Object.prototype.toString\<close>; when the object has
  a member named \<^verbatim>\<open>toString\<close> of its own, that member is not callable,
  \<^verbatim>\<open>valueOf\<close> gives no primitive, and the conversion throws a TypeError (the result
  \<open>None\<close>).
\<close>

fun to_string :: "jsvalue \<Rightarrow> jstring option"
  and join :: "jsvalue list \<Rightarrow> jstring option" where
  "to_string JUndefined = Some (lit ''undefined'')"
| "to_string JNull = Some (lit ''null'')"
| "to_string (JBool b) = Some (if b then lit ''true'' else lit ''false'')"
| "to_string (JNum t) = Some t"
| "to_string (JStr s) = Some s"
| "to_string (JArr xs) = join xs"
| "to_string (JObj fs) =
     (if lit ''toString'' \<in> fst ` set fs then None else Some (lit ''[object Object]''))"
| "join [] = Some []"
| "join (x # xs) =
     (case (if x = JUndefined \<or> x = JNull then Some [] else to_string x) of
        None \<Rightarrow> None
      | Some s \<Rightarrow>
          (if xs = [] then Some s
           else (case join xs of None \<Rightarrow> None | Some t \<Rightarrow> Some (s @ lit '','' @ t))))"

text \<open>A template literal: the parts converted by ToString, left to right, and concatenated.\<close>

fun template :: "jsvalue list \<Rightarrow> jstring option" where
  "template [] = Some []"
| "template (v # vs) =
     (case to_string v of
        None \<Rightarrow> None
      | Some s \<Rightarrow> (case template vs of None \<Rightarrow> None | Some t \<Rightarrow> Some (s @ t)))"

text \<open>
  \<^verbatim>\<open>String.prototype.trim\<close> strips white space and line terminators from both ends:
  TAB, LF, VT, FF, CR, SP, NBSP, U+1680, U+2000 to U+200A, U+2028, U+2029, U+202F, U+205F,
  U+3000 and U+FEFF.
\<close>

definition is_white_space :: "16 word \<Rightarrow> bool" where
  "is_white_space c =
     (c \<in> set [0x9, 0xA, 0xB, 0xC, 0xD, 0x20, 0xA0, 0x1680, 0x2028, 0x2029, 0x202F, 0x205F,
               0x3000, 0xFEFF]
      \<or> (0x2000 \<le> c \<and> c \<le> 0x200A))"

definition trim :: "jstring \<Rightarrow> jstring" where
  "trim s = rev (dropWhile is_white_space (rev (dropWhile is_white_space s)))"

section \<open>The store's column types (lib/db/schema.ts)\<close>

text \<open>
  The table \<^verbatim>\<open>files\<close> is a PostgreSQL table: \<^verbatim>\<open>id\<close> and \<^verbatim>\<open>parent_id\<close>
  are of type \<^verbatim>\<open>uuid\<close>, \<^verbatim>\<open>size\<close> of type \<^verbatim>\<open>integer\<close>, the names and URLs of type
  \<^verbatim>\<open>text\<close>. A value that a handler passes reaches the store as a text, which the
  column's input function reads; when the function refuses the text the statement fails
  and the handler's \<^verbatim>\<open>catch\<close> answers 500.
\<close>

subsection \<open>uuid\<close>

text \<open>
  A uuid is 16 octets. Its input function reads 32 hexadecimal digits in either case,
  with an optional hyphen after any group of four digits but the last, and optional
  braces around the whole; nothing else may follow. So one uuid has many spellings, and
  two spellings of it compare equal.
\<close>

type_synonym uuid = "8 word list"

definition is_xdigit :: "16 word \<Rightarrow> bool" where
  "is_xdigit c = ((0x30 \<le> c \<and> c \<le> 0x39) \<or> (0x41 \<le> c \<and> c \<le> 0x46) \<or> (0x61 \<le> c \<and> c \<le> 0x66))"

definition xdigit_value :: "16 word \<Rightarrow> nat" where
  "xdigit_value c =
     (if c \<le> 0x39 then unat c - 0x30 else if c \<le> 0x46 then unat c - 0x37 else unat c - 0x57)"

text \<open>
  \<open>uuid_octets hs src\<close> reads one octet for each member of \<open>hs\<close>, which says whether a
  hyphen may follow that octet, and returns what follows them.
\<close>

fun uuid_octets :: "bool list \<Rightarrow> jstring \<Rightarrow> (uuid \<times> jstring) option" where
  "uuid_octets [] src = Some ([], src)"
| "uuid_octets (h # hs) src =
     (case src of
        a # b # rest \<Rightarrow>
          if is_xdigit a \<and> is_xdigit b
          then (case uuid_octets hs (if h \<and> take 1 rest = lit ''-'' then drop 1 rest else rest) of
                  None \<Rightarrow> None
                | Some (os, r) \<Rightarrow> Some (of_nat (16 * xdigit_value a + xdigit_value b) # os, r))
          else None
      | _ \<Rightarrow> None)"

definition hyphen_after :: "bool list" where
  "hyphen_after =
     [False, True, False, True, False, True, False, True,
      False, True, False, True, False, True, False, False]"

definition uuid_in :: "jstring \<Rightarrow> uuid option" where
  "uuid_in s =
     (let braces = (take 1 s = lit ''{'')
      in case uuid_octets hyphen_after (if braces then drop 1 s else s) of
           None \<Rightarrow> None
         | Some (os, r) \<Rightarrow> if r = (if braces then lit ''}'' else []) then Some os else None)"

text \<open>
  The uuid a handler's value stands for. The texts a driver sends for a number, a
  boolean, an array or an object are no spellings of a uuid.
\<close>

fun uuid_param :: "jsvalue \<Rightarrow> uuid option" where
  "uuid_param (JStr s) = uuid_in s"
| "uuid_param v = None"

subsection \<open>integer\<close>

text \<open>
  The input function of \<^verbatim>\<open>integer\<close> reads decimal digits with an optional sign, white
  space allowed around them, and refuses a value outside 32 bits. (The further spellings
  that PostgreSQL 16 reads, \<^verbatim>\<open>0x10\<close> and \<^verbatim>\<open>1_000\<close>, are left out.)
\<close>

definition is_space :: "16 word \<Rightarrow> bool" where
  "is_space c = (c \<in> set [0x20, 0x9, 0xA, 0xB, 0xC, 0xD])"

definition is_digit :: "16 word \<Rightarrow> bool" where
  "is_digit c = (0x30 \<le> c \<and> c \<le> 0x39)"

definition decimal :: "jstring \<Rightarrow> int" where
  "decimal ds = foldl (\<lambda>n c. 10 * n + (int (unat c) - 0x30)) 0 ds"

definition int4in :: "jstring \<Rightarrow> int option" where
  "int4in s =
     (let s1 = dropWhile is_space s;
          negative = (take 1 s1 = lit ''-'');
          s2 = (if negative \<or> take 1 s1 = lit ''+'' then drop 1 s1 else s1);
          ds = takeWhile is_digit s2;
          n = (if negative then - decimal ds else decimal ds)
      in if ds = [] \<or> dropWhile is_space (dropWhile is_digit s2) \<noteq> [] then None
         else if - (2 ^ 31) \<le> n \<and> n < 2 ^ 31 then Some n
         else None)"

text \<open>
  The integer a handler's value stands for: a number arrives as the text JavaScript
  prints, a string as it is; the texts of a boolean, an array or an object are refused.
\<close>

fun int_param :: "jsvalue \<Rightarrow> int option" where
  "int_param (JNum t) = int4in t"
| "int_param (JStr s) = int4in s"
| "int_param v = None"

subsection \<open>The environment of a request\<close>

text \<open>
  What a request draws from outside: the texts that the calls of \<^verbatim>\<open>uuidv4()\<close> return,
  the uuid that the column default \<^verbatim>\<open>defaultRandom()\<close> makes, the clock behind
  \<^verbatim>\<open>defaultNow()\<close>, and whether the driver passes on a string with an unpaired
  surrogate.
\<close>

record env =
  uuid1 :: jstring
  uuid2 :: jstring
  gen_random_uuid :: uuid
  now :: nat
  unpaired_surrogates_pass :: bool

subsection \<open>text\<close>

text \<open>
  A text holds no U+0000: the store refuses it. A string that is well-formed UTF-16 is
  stored as it is. The client \<^verbatim>\<open>@/lib/db\<close> is not among the sources, whose notes
  say that it is Neon's HTTP driver. For a value that is not a string the stored text is
  the one the driver makes of it (a number as JavaScript prints it, a boolean as
  \<^verbatim>\<open>true\<close> or \<^verbatim>\<open>false\<close>, an array in braces, an object as JSON, none of them
  empty); it is left uninterpreted as \<open>Driver_text v\<close>. An array reaches the store
  with its strings unescaped, so U+0000 in one of them is refused as well. A string with an
  unpaired surrogate is no text as it is: the driver replaces the surrogate or fails, which
  of the two is a parameter of the model.
\<close>

datatype text_cell = Text jstring | Driver_text jsvalue

definition is_high_surrogate :: "16 word \<Rightarrow> bool" where
  "is_high_surrogate c = (0xD800 \<le> c \<and> c \<le> 0xDBFF)"

definition is_low_surrogate :: "16 word \<Rightarrow> bool" where
  "is_low_surrogate c = (0xDC00 \<le> c \<and> c \<le> 0xDFFF)"

fun well_formed :: "jstring \<Rightarrow> bool" where
  "well_formed [] = True"
| "well_formed [c] = (\<not> is_high_surrogate c \<and> \<not> is_low_surrogate c)"
| "well_formed (c # d # cs) =
     (if is_high_surrogate c then is_low_surrogate d \<and> well_formed cs
      else \<not> is_low_surrogate c \<and> well_formed (d # cs))"

definition plain_text :: "jstring \<Rightarrow> bool" where
  "plain_text s = (0 \<notin> set s \<and> well_formed s)"

fun raw_nul :: "jsvalue \<Rightarrow> bool"
  and raw_nul_list :: "jsvalue list \<Rightarrow> bool" where
  "raw_nul (JStr s) = (0 \<in> set s)"
| "raw_nul (JArr xs) = raw_nul_list xs"
| "raw_nul v = False"
| "raw_nul_list [] = False"
| "raw_nul_list (x # xs) = (raw_nul x \<or> raw_nul_list xs)"

definition text_param :: "env \<Rightarrow> jsvalue \<Rightarrow> text_cell option" where
  "text_param e v =
     (if v = JUndefined \<or> v = JNull \<or> raw_nul v then None
      else case v of
             JStr s \<Rightarrow>
               if well_formed s then Some (Text s)
               else if unpaired_surrogates_pass e then Some (Driver_text v)
               else None
           | _ \<Rightarrow> Some (Driver_text v))"

section \<open>The files table (lib/db/schema.ts)\<close>

text \<open>
  One row of the table. The columns \<^verbatim>\<open>id\<close>, \<^verbatim>\<open>size\<close> and \<^verbatim>\<open>type\<close> are
  \<open>id_col\<close>, \<open>size_col\<close> and \<open>type_col\<close> here; a nullable column holds an option. The
  column \<^verbatim>\<open>user_id\<close> only ever receives the user id of the session, which is Clerk's
  and is taken to be a text the store holds as it is.
\<close>

record file_row =
  id_col :: uuid
  name :: text_cell
  path :: text_cell
  size_col :: int
  type_col :: text_cell
  fileUrl :: text_cell
  thumbnailUrl :: "text_cell option"
  userId :: jstring
  parentId :: "uuid option"
  isFolder :: bool
  isStarred :: bool
  isTrash :: bool
  createdAt :: nat
  updatedAt :: nat

subsection \<open>Queries\<close>

text \<open>The conditions the handlers build with drizzle's \<^verbatim>\<open>eq\<close>, \<^verbatim>\<open>isNull\<close> and \<^verbatim>\<open>and\<close>.\<close>

datatype column = files_id | files_userId | files_parentId | files_isFolder

datatype condition = Eq column jsvalue | IsNull column | And condition condition

datatype sql_value = Null | Uuid_value uuid | Text_value jstring | Bool_value bool

fun cell :: "column \<Rightarrow> file_row \<Rightarrow> sql_value" where
  "cell files_id r = Uuid_value (id_col r)"
| "cell files_userId r = Text_value (userId r)"
| "cell files_parentId r = (case parentId r of None \<Rightarrow> Null | Some i \<Rightarrow> Uuid_value i)"
| "cell files_isFolder r = Bool_value (isFolder r)"

text \<open>
  The operand of a comparison, read at the column's type; \<open>None\<close> when the store refuses
  it, which fails the whole query whatever the table holds. The handlers compare
  \<^verbatim>\<open>user_id\<close> with the user id of the session only, a text taken as it is.
\<close>

fun operand :: "column \<Rightarrow> jsvalue \<Rightarrow> sql_value option" where
  "operand c JNull = Some Null"
| "operand c JUndefined = Some Null"
| "operand files_id v = map_option Uuid_value (uuid_param v)"
| "operand files_parentId v = map_option Uuid_value (uuid_param v)"
| "operand files_userId v = (case v of JStr s \<Rightarrow> Some (Text_value s) | _ \<Rightarrow> None)"
| "operand files_isFolder v = (case v of JBool b \<Rightarrow> Some (Bool_value b) | _ \<Rightarrow> None)"

fun binds :: "condition \<Rightarrow> bool" where
  "binds (Eq c v) = (operand c v \<noteq> None)"
| "binds (IsNull c) = True"
| "binds (And a b) = (binds a \<and> binds b)"

text \<open>
  SQL's three-valued logic: a comparison with NULL is unknown (\<open>None\<close>), and
  \<^verbatim>\<open>WHERE\<close> keeps the rows whose condition is true.
\<close>

fun sql_eval :: "condition \<Rightarrow> file_row \<Rightarrow> bool option" where
  "sql_eval (Eq c v) r =
     (case operand c v of
        None \<Rightarrow> None
      | Some x \<Rightarrow> if cell c r = Null \<or> x = Null then None else Some (cell c r = x))"
| "sql_eval (IsNull c) r = Some (cell c r = Null)"
| "sql_eval (And a b) r =
     (case (sql_eval a r, sql_eval b r) of
        (Some False, _) \<Rightarrow> Some False
      | (_, Some False) \<Rightarrow> Some False
      | (Some True, Some True) \<Rightarrow> Some True
      | _ \<Rightarrow> None)"

text \<open>\<^verbatim>\<open>db.select().from(files).where(c)\<close>; \<open>None\<close> when the query throws.\<close>

definition db_select :: "file_row list \<Rightarrow> condition \<Rightarrow> file_row list option" where
  "db_select tbl c = (if binds c then Some (filter (\<lambda>r. sql_eval c r = Some True) tbl) else None)"

subsection \<open>Insertion\<close>

text \<open>
  The row that the store makes of the object a handler passes to \<^verbatim>\<open>values\<close>; \<open>None\<close>
  when a column refuses its value. A member the object does not have takes the column's
  default (a random id, false, the current time); a column that is not nullable refuses
  null.
\<close>

definition id_param :: "env \<Rightarrow> jsvalue \<Rightarrow> uuid option" where
  "id_param e v = (if v = JUndefined then Some (gen_random_uuid e) else uuid_param v)"

definition nullable_text_param :: "env \<Rightarrow> jsvalue \<Rightarrow> text_cell option option" where
  "nullable_text_param e v =
     (if v = JUndefined \<or> v = JNull then Some None else map_option Some (text_param e v))"

definition nullable_uuid_param :: "jsvalue \<Rightarrow> uuid option option" where
  "nullable_uuid_param v =
     (if v = JUndefined \<or> v = JNull then Some None else map_option Some (uuid_param v))"

fun user_param :: "jsvalue \<Rightarrow> jstring option" where
  "user_param (JStr s) = Some s"
| "user_param v = None"

fun bool_param :: "jsvalue \<Rightarrow> bool option" where
  "bool_param (JBool b) = Some b"
| "bool_param JUndefined = Some False"
| "bool_param v = None"

definition new_row :: "env \<Rightarrow> jsvalue \<Rightarrow> file_row option" where
  "new_row e d =
     Option.bind (id_param e (js_get d (lit ''id''))) (\<lambda>i.
     Option.bind (text_param e (js_get d (lit ''name''))) (\<lambda>n.
     Option.bind (text_param e (js_get d (lit ''path''))) (\<lambda>p.
     Option.bind (int_param (js_get d (lit ''size''))) (\<lambda>s.
     Option.bind (text_param e (js_get d (lit ''type''))) (\<lambda>t.
     Option.bind (text_param e (js_get d (lit ''fileUrl''))) (\<lambda>f.
     Option.bind (nullable_text_param e (js_get d (lit ''thumbnailUrl''))) (\<lambda>th.
     Option.bind (user_param (js_get d (lit ''userId''))) (\<lambda>u.
     Option.bind (nullable_uuid_param (js_get d (lit ''parentId''))) (\<lambda>pa.
     Option.bind (bool_param (js_get d (lit ''isFolder''))) (\<lambda>fo.
     Option.bind (bool_param (js_get d (lit ''isStarred''))) (\<lambda>st.
     Option.bind (bool_param (js_get d (lit ''isTrash''))) (\<lambda>tr.
       Some \<lparr>id_col = i, name = n, path = p, size_col = s, type_col = t, fileUrl = f,
             thumbnailUrl = th, userId = u, parentId = pa, isFolder = fo, isStarred = st,
             isTrash = tr, createdAt = now e, updatedAt = now e\<rparr>))))))))))))"

text \<open>
  \<^verbatim>\<open>db.insert(files).values(d).returning()\<close>: the new table and the inserted row, or
  \<open>None\<close> when the statement throws: a column refuses its value, or the id is the
  primary key of a row already there.
\<close>

definition db_insert ::
  "env \<Rightarrow> file_row list \<Rightarrow> jsvalue \<Rightarrow> (file_row list \<times> file_row) option" where
  "db_insert e tbl d =
     (case new_row e d of
        None \<Rightarrow> None
      | Some r \<Rightarrow> if id_col r \<in> id_col ` set tbl then None else Some (tbl @ [r], r))"

section \<open>Responses\<close>

datatype json_body =
    Error_body string
  | Files_body "file_row list"
  | File_body file_row
  | Folder_body bool string file_row

record response =
  status :: nat
  body :: json_body

text \<open>\<^verbatim>\<open>NextResponse.json(b, { status: s })\<close>; the status is 200 when none is given.\<close>

definition NextResponse_json :: "json_body \<Rightarrow> nat \<Rightarrow> response" where
  "NextResponse_json b s = \<lparr>status = s, body = b\<rparr>"

section \<open>GET /api/files (app/api/files/route.ts)\<close>

text \<open>
  The handler's arguments are the table, the \<^verbatim>\<open>userId\<close> that \<^verbatim>\<open>auth()\<close> returns
  (\<open>None\<close> for null) and the query parameters in the order of the URL;
  \<^verbatim>\<open>searchParams.get\<close> returns the first value of a name, or null. The steps are the
  source's: 401 without a session; 401 when the \<^verbatim>\<open>userId\<close> parameter is falsy or
  differs from the session's; then one of two queries, chosen by \<^verbatim>\<open>if (parentId)\<close>;
  500 from the \<^verbatim>\<open>catch\<close> when the query throws.
\<close>

definition files_GET ::
  "file_row list \<Rightarrow> jstring option \<Rightarrow> (jstring \<times> jstring) list \<Rightarrow> response" where
  "files_GET tbl auth_userId searchParams =
     (let userId = nullable auth_userId in
      if \<not> truthy userId then NextResponse_json (Error_body ''Unauthorized'') 401
      else
        let queryUserId = nullable (map_of searchParams (lit ''userId''));
            parentId = nullable (map_of searchParams (lit ''parentId''))
        in
          if \<not> truthy queryUserId \<or> queryUserId \<noteq> userId
          then NextResponse_json (Error_body ''Unauthorized'') 401
          else
            (case (if truthy parentId
                   then db_select tbl (And (Eq files_userId userId) (Eq files_parentId parentId))
                   else db_select tbl (And (Eq files_userId userId) (IsNull files_parentId))) of
               None \<Rightarrow> NextResponse_json (Error_body ''Failed to fetch files'') 500
             | Some userFiles \<Rightarrow> NextResponse_json (Files_body userFiles) 200))"

section \<open>POST /api/folders/create (app/api/folders/create/route.ts)\<close>

text \<open>
  A handler that writes takes the table and returns the table after the request. The body
  is \<open>None\<close> when the request's text is not JSON: \<^verbatim>\<open>request.json()\<close> throws, as
  destructuring a null body does, and the handler's \<^verbatim>\<open>catch\<close> answers 500. The steps
  are the source's: 401 without a session; destructuring, with \<^verbatim>\<open>parentId = null\<close> for
  an undefined member; 401 when \<^verbatim>\<open>bodyUserId !== userId\<close>; 400 when
  \<^verbatim>\<open>!name || typeof name !== "string" || name.trim() === ""\<close>; under
  \<^verbatim>\<open>if (parentId)\<close>, the lookup of the parent folder and 404 when it finds no row;
  then \<^verbatim>\<open>folderData\<close> and the insert; 500 from the \<^verbatim>\<open>catch\<close> when the lookup or the
  insert throws. The first call of \<^verbatim>\<open>uuidv4()\<close> gives the id, the second the last part
  of the path; the timestamps are the columns' defaults.
\<close>

text \<open>
  The object \<^verbatim>\<open>folderData\<close> of the source, from the session's user id, the trimmed
  name, the path and the parent id.
\<close>

definition folderData :: "env \<Rightarrow> jsvalue \<Rightarrow> jstring \<Rightarrow> jstring \<Rightarrow> jsvalue \<Rightarrow> jsvalue" where
  "folderData e user name_trimmed path_text parent =
     JObj [(lit ''id'', JStr (uuid1 e)),
           (lit ''name'', JStr name_trimmed),
           (lit ''path'', JStr path_text),
           (lit ''size'', JNum (lit ''0'')),
           (lit ''type'', JStr (lit ''folder'')),
           (lit ''fileUrl'', JStr (lit '''')),
           (lit ''thumbnailUrl'', JNull),
           (lit ''userId'', user),
           (lit ''parentId'', parent),
           (lit ''isFolder'', JBool True),
           (lit ''isStarred'', JBool False),
           (lit ''isTrash'', JBool False)]"

definition folders_create_POST ::
  "env \<Rightarrow> file_row list \<Rightarrow> jstring option \<Rightarrow> jsvalue option \<Rightarrow> response \<times> file_row list" where
  "folders_create_POST e tbl auth_userId request_json =
     (let userId = nullable auth_userId;
          failed = (NextResponse_json (Error_body ''Failed to create folder'') 500, tbl)
      in
      if \<not> truthy userId then (NextResponse_json (Error_body ''Unauthorized'') 401, tbl)
      else
        (case request_json of
           None \<Rightarrow> failed
         | Some b \<Rightarrow>
             if b = JNull \<or> b = JUndefined then failed
             else
               let name = js_get b (lit ''name'');
                   bodyUserId = js_get b (lit ''userId'');
                   parentId =
                     (if js_get b (lit ''parentId'') = JUndefined then JNull
                      else js_get b (lit ''parentId''))
               in
               if bodyUserId \<noteq> userId
               then (NextResponse_json (Error_body ''Unauthorized'') 401, tbl)
               else
                 (case name of
                    JStr s \<Rightarrow>
                      if \<not> truthy name \<or> trim s = []
                      then (NextResponse_json (Error_body ''Folder name is required'') 400, tbl)
                      else
                        (case (if truthy parentId
                               then db_select tbl
                                      (And (Eq files_id parentId)
                                         (And (Eq files_userId userId)
                                            (Eq files_isFolder (JBool True))))
                               else Some []) of
                           None \<Rightarrow> failed
                         | Some parentFolder \<Rightarrow>
                             if truthy parentId \<and> parentFolder = []
                             then (NextResponse_json (Error_body ''Parent folder not found'') 404,
                                   tbl)
                             else
                               (case template [JStr (lit ''/folders/''), userId, JStr (lit ''/''),
                                               JStr (uuid2 e)] of
                                  None \<Rightarrow> failed
                                | Some p \<Rightarrow>
                                    let folderData = folderData e userId (trim s) p parentId
                                    in (case db_insert e tbl folderData of
                                          None \<Rightarrow> failed
                                        | Some (tbl', newFolder) \<Rightarrow>
                                            (NextResponse_json
                                               (Folder_body True ''Folder created successfully''
                                                  newFolder)
                                               200,
                                             tbl'))))
                  | _ \<Rightarrow> (NextResponse_json (Error_body ''Folder name is required'') 400, tbl))))"

section \<open>POST /api/upload (app/api/upload/route.ts)\<close>

text \<open>
  The steps are the source's: 401 without a session; destructuring; 401 when
  \<^verbatim>\<open>bodyUserId !== userId\<close>; 400 when \<^verbatim>\<open>!imagekit || !imagekit.url\<close>; then
  \<^verbatim>\<open>fileData\<close> and the insert; 500 from the \<^verbatim>\<open>catch\<close> when building
  \<^verbatim>\<open>fileData\<close> or the insert throws. Of the members of \<^verbatim>\<open>fileData\<close> only the path
  can throw: its template literal is evaluated when \<^verbatim>\<open>imagekit.filePath\<close> is falsy.
  The handler gives no id: the id and the timestamps are the columns' defaults.
\<close>

text \<open>
  The object \<^verbatim>\<open>fileData\<close> of the source, from the session's user id, the
  \<^verbatim>\<open>imagekit\<close> member of the body and the path.
\<close>

definition fileData :: "jsvalue \<Rightarrow> jsvalue \<Rightarrow> jsvalue \<Rightarrow> jsvalue" where
  "fileData user imagekit path_value =
     JObj [(lit ''name'', js_or (js_get imagekit (lit ''name'')) (JStr (lit ''Untitled''))),
           (lit ''path'', path_value),
           (lit ''size'', js_or (js_get imagekit (lit ''size'')) (JNum (lit ''0''))),
           (lit ''type'', js_or (js_get imagekit (lit ''fileType'')) (JStr (lit ''image''))),
           (lit ''fileUrl'', js_get imagekit (lit ''url'')),
           (lit ''thumbnailUrl'', js_or (js_get imagekit (lit ''thumbnailUrl'')) JNull),
           (lit ''userId'', user),
           (lit ''parentId'', JNull),
           (lit ''isFolder'', JBool False),
           (lit ''isStarred'', JBool False),
           (lit ''isTrash'', JBool False)]"

definition upload_POST ::
  "env \<Rightarrow> file_row list \<Rightarrow> jstring option \<Rightarrow> jsvalue option \<Rightarrow> response \<times> file_row list" where
  "upload_POST e tbl auth_userId request_json =
     (let userId = nullable auth_userId;
          failed = (NextResponse_json (Error_body ''Failed to save file information'') 500, tbl)
      in
      if \<not> truthy userId then (NextResponse_json (Error_body ''Unauthorized'') 401, tbl)
      else
        (case request_json of
           None \<Rightarrow> failed
         | Some b \<Rightarrow>
             if b = JNull \<or> b = JUndefined then failed
             else
               let imagekit = js_get b (lit ''imagekit'');
                   bodyUserId = js_get b (lit ''userId'')
               in
               if bodyUserId \<noteq> userId
               then (NextResponse_json (Error_body ''Unauthorized'') 401, tbl)
               else if \<not> truthy imagekit \<or> \<not> truthy (js_get imagekit (lit ''url''))
               then (NextResponse_json (Error_body ''Invalid file upload data'') 400, tbl)
               else
                 (case (if truthy (js_get imagekit (lit ''filePath''))
                        then Some (js_get imagekit (lit ''filePath''))
                        else map_option JStr
                               (template [JStr (lit ''/droply/''), userId, JStr (lit ''/''),
                                          js_get imagekit (lit ''name'')])) of
                    None \<Rightarrow> failed
                  | Some p \<Rightarrow>
                      let fileData = fileData userId imagekit p
                      in (case db_insert e tbl fileData of
                            None \<Rightarrow> failed
                          | Some (tbl', newFile) \<Rightarrow>
                              (NextResponse_json (File_body newFile) 200, tbl')))))"

text \<open>
  The path the handler gives the row: \<^verbatim>\<open>imagekit.filePath\<close> when that is truthy, the
  template literal otherwise; \<open>None\<close> when the literal throws.
\<close>

definition upload_path :: "jstring \<Rightarrow> jsvalue \<Rightarrow> jsvalue option" where
  "upload_path u ik =
     (if truthy (js_get ik (lit ''filePath'')) then Some (js_get ik (lit ''filePath''))
      else map_option (\<lambda>s. JStr (lit ''/droply/'' @ u @ lit ''/'' @ s))
             (to_string (js_get ik (lit ''name''))))"

section \<open>The specification's vocabulary\<close>

text \<open>
  The specification's listing: the nodes of a table with a given owner and a given parent
  (\<open>None\<close> for the root level).
\<close>

definition nodes_of :: "jstring \<Rightarrow> uuid option \<Rightarrow> file_row list \<Rightarrow> file_row list" where
  "nodes_of owner parent tbl = filter (\<lambda>r. userId r = owner \<and> parentId r = parent) tbl"

text \<open>
  The parent a listing request selects: the root level (\<open>Some None\<close>) when the
  \<^verbatim>\<open>parentId\<close> parameter is absent or empty (\<^verbatim>\<open>if (parentId)\<close>), the uuid that the
  parameter spells otherwise, and none (\<open>None\<close>) when it spells no uuid.
\<close>

definition listed_parent :: "jstring option \<Rightarrow> uuid option option" where
  "listed_parent p =
     (case p of
        None \<Rightarrow> Some None
      | Some q \<Rightarrow> if q = [] then Some None else map_option Some (uuid_in q))"

text \<open>The rows a response carries (none when it is not a listing).\<close>

definition rows_of :: "response \<Rightarrow> file_row list" where
  "rows_of r = (case body r of Files_body rs \<Rightarrow> rs | _ \<Rightarrow> [])"

text \<open>
  The specification's condition on a folder's parent: some node of the table has that id,
  that owner and is a folder.
\<close>

definition parent_folder_exists :: "file_row list \<Rightarrow> jstring \<Rightarrow> uuid \<Rightarrow> bool" where
  "parent_folder_exists tbl owner i =
     list_ex (\<lambda>r. id_col r = i \<and> userId r = owner \<and> isFolder r) tbl"

text \<open>
  The upload result of the specification's interface table,
  \<^verbatim>\<open>{ url, name?, filePath?, size?, fileType?, thumbnailUrl? }\<close>: the url a non-empty
  plain text, the size a number that is a 32-bit integer, the other members plain texts,
  each of them absent or present.
\<close>

fun optional_text :: "jsvalue \<Rightarrow> bool" where
  "optional_text JUndefined = True"
| "optional_text (JStr s) = plain_text s"
| "optional_text v = False"

fun optional_integer :: "jsvalue \<Rightarrow> bool" where
  "optional_integer JUndefined = True"
| "optional_integer (JNum t) = (int4in t \<noteq> None)"
| "optional_integer v = False"

definition upload_result :: "jsvalue \<Rightarrow> jstring \<Rightarrow> bool" where
  "upload_result ik url =
     (js_get ik (lit ''url'') = JStr url \<and> url \<noteq> [] \<and> plain_text url
      \<and> optional_text (js_get ik (lit ''name''))
      \<and> optional_text (js_get ik (lit ''filePath''))
      \<and> optional_integer (js_get ik (lit ''size''))
      \<and> optional_text (js_get ik (lit ''fileType''))
      \<and> optional_text (js_get ik (lit ''thumbnailUrl'')))"

section \<open>Example data\<close>

text \<open>
  Two callers and a small table: caller U1 owns the root folder Vacation, a root file,
  and a starred and a trashed file inside Vacation; caller U2 owns a file whose parent id
  is also Vacation's, and a root file. The uuid \<open>example_id k\<close> is spelled
  \<^verbatim>\<open>00000000-0000-4000-8000-0000000000\<close> followed by the two digits of \<open>k\<close>.
\<close>

definition U1 :: jstring where
  "U1 = lit ''U1''"

definition U2 :: jstring where
  "U2 = lit ''U2''"

definition example_id :: "8 word \<Rightarrow> uuid" where
  "example_id k = [0, 0, 0, 0, 0, 0, 0x40, 0, 0x80, 0, 0, 0, 0, 0, 0, k]"

definition env0 :: env where
  "env0 = \<lparr>uuid1 = lit ''00000000-0000-4000-8000-0000000000f9'',
           uuid2 = lit ''00000000-0000-4000-8000-0000000000e9'',
           gen_random_uuid = example_id 0x09, now = 20,
           unpaired_surrogates_pass = False\<rparr>"

definition vacation :: file_row where
  "vacation =
     \<lparr>id_col = example_id 0xF1, name = Text (lit ''Vacation''),
      path = Text (lit ''/folders/U1/00000000-0000-4000-8000-0000000000e1''),
      size_col = 0, type_col = Text (lit ''folder''), fileUrl = Text [],
      thumbnailUrl = None, userId = U1, parentId = None, isFolder = True,
      isStarred = False, isTrash = False, createdAt = 7, updatedAt = 7\<rparr>"

definition x_jpg :: file_row where
  "x_jpg =
     \<lparr>id_col = example_id 0x01, name = Text (lit ''x.jpg''), path = Text (lit ''/droply/U1/x.jpg''),
      size_col = 1024, type_col = Text (lit ''image''),
      fileUrl = Text (lit ''https://cdn/x.jpg''),
      thumbnailUrl = None, userId = U1, parentId = None, isFolder = False,
      isStarred = False, isTrash = False, createdAt = 8, updatedAt = 8\<rparr>"

definition beach_jpg :: file_row where
  "beach_jpg =
     \<lparr>id_col = example_id 0x02, name = Text (lit ''beach.jpg''), path = Text (lit ''/p/beach.jpg''),
      size_col = 2048, type_col = Text (lit ''image''),
      fileUrl = Text (lit ''https://cdn/beach.jpg''),
      thumbnailUrl = None, userId = U1, parentId = Some (example_id 0xF1), isFolder = False,
      isStarred = True, isTrash = False, createdAt = 9, updatedAt = 9\<rparr>"

definition old_jpg :: file_row where
  "old_jpg =
     \<lparr>id_col = example_id 0x03, name = Text (lit ''old.jpg''), path = Text (lit ''/p/old.jpg''),
      size_col = 10, type_col = Text (lit ''image''),
      fileUrl = Text (lit ''https://cdn/old.jpg''),
      thumbnailUrl = None, userId = U1, parentId = Some (example_id 0xF1), isFolder = False,
      isStarred = False, isTrash = True, createdAt = 10, updatedAt = 10\<rparr>"

definition stray_jpg :: file_row where
  "stray_jpg =
     \<lparr>id_col = example_id 0x04, name = Text (lit ''stray.jpg''), path = Text (lit ''/p/stray.jpg''),
      size_col = 5, type_col = Text (lit ''image''),
      fileUrl = Text (lit ''https://cdn/stray.jpg''),
      thumbnailUrl = None, userId = U2, parentId = Some (example_id 0xF1), isFolder = False,
      isStarred = False, isTrash = False, createdAt = 11, updatedAt = 11\<rparr>"

definition other_jpg :: file_row where
  "other_jpg =
     \<lparr>id_col = example_id 0x05, name = Text (lit ''other.jpg''), path = Text (lit ''/p/other.jpg''),
      size_col = 6, type_col = Text (lit ''image''),
      fileUrl = Text (lit ''https://cdn/other.jpg''),
      thumbnailUrl = None, userId = U2, parentId = None, isFolder = False,
      isStarred = False, isTrash = False, createdAt = 12, updatedAt = 12\<rparr>"

definition tbl0 :: "file_row list" where
  "tbl0 = [vacation, x_jpg, beach_jpg, old_jpg, stray_jpg, other_jpg]"

text \<open>Request bodies: folder creation, and the report of an upload.\<close>

definition folder_request :: "jstring \<Rightarrow> jstring \<Rightarrow> jsvalue \<Rightarrow> jsvalue" where
  "folder_request n u p =
     JObj [(lit ''name'', JStr n), (lit ''userId'', JStr u), (lit ''parentId'', p)]"

definition blank_request :: jsvalue where
  "blank_request = JObj [(lit ''name'', JStr (lit ''  '')), (lit ''userId'', JStr U1)]"

definition upload_request :: "jstring \<Rightarrow> jsvalue \<Rightarrow> jsvalue" where
  "upload_request u ik =
     JObj [(lit ''imagekit'', ik), (lit ''userId'', JStr u),
           (lit ''parentId'', JStr (lit ''00000000-0000-4000-8000-0000000000f1''))]"

definition y_imagekit :: jsvalue where
  "y_imagekit =
     JObj [(lit ''url'', JStr (lit ''https://cdn/y.jpg'')), (lit ''name'', JStr (lit ''y.jpg'')),
           (lit ''size'', JNum (lit ''1024''))]"

definition odd_imagekit :: jsvalue where
  "odd_imagekit =
     JObj [(lit ''url'', JStr (lit ''https://cdn/y.jpg'')),
           (lit ''name'', JObj [(lit ''toString'', JStr (lit ''y''))])]"

definition big_imagekit :: jsvalue where
  "big_imagekit =
     JObj [(lit ''url'', JStr (lit ''https://cdn/y.jpg'')), (lit ''name'', JStr (lit ''y.jpg'')),
           (lit ''size'', JNum (lit ''2147483648''))]"

definition y_jpg :: file_row where
  "y_jpg =
     \<lparr>id_col = example_id 0x09, name = Text (lit ''y.jpg''), path = Text (lit ''/droply/U1/y.jpg''),
      size_col = 1024, type_col = Text (lit ''image''),
      fileUrl = Text (lit ''https://cdn/y.jpg''),
      thumbnailUrl = None, userId = U1, parentId = None, isFolder = False,
      isStarred = False, isTrash = False, createdAt = 20, updatedAt = 20\<rparr>"

definition trips :: file_row where
  "trips =
     \<lparr>id_col = example_id 0xF9, name = Text (lit ''Trips''),
      path = Text (lit ''/folders/U1/00000000-0000-4000-8000-0000000000e9''),
      size_col = 0, type_col = Text (lit ''folder''), fileUrl = Text [],
      thumbnailUrl = None, userId = U1, parentId = None, isFolder = True,
      isStarred = False, isTrash = False, createdAt = 20, updatedAt = 20\<rparr>"

text \<open>A folder name with U+0000 between the letters a and b.\<close>

definition nul_name :: jstring where
  "nul_name = [0x61, 0, 0x62]"

section \<open>Facts about the model\<close>

lemmas example_defs =
  vacation_def x_jpg_def beach_jpg_def old_jpg_def stray_jpg_def other_jpg_def y_jpg_def
  trips_def U1_def U2_def env0_def tbl0_def example_id_def

lemmas uuid_eval = uuid_in_def hyphen_after_def is_xdigit_def xdigit_value_def lit_def Let_def

lemmas int_eval = int4in_def is_space_def is_digit_def decimal_def lit_def Let_def

lemmas surrogate_defs = is_high_surrogate_def is_low_surrogate_def

lemma sql_and_true:
  "sql_eval (And a b) r = Some True \<longleftrightarrow> sql_eval a r = Some True \<and> sql_eval b r = Some True"
  by (simp split: option.splits bool.splits)

lemma sql_eq_true:
  "sql_eval (Eq c v) r = Some True \<longleftrightarrow> operand c v = Some (cell c r) \<and> cell c r \<noteq> Null"
  by (auto split: option.splits)

lemma sql_isNull_true:
  "sql_eval (IsNull c) r = Some True \<longleftrightarrow> cell c r = Null"
  by simp

lemma cell_parentId: "cell files_parentId r = Uuid_value i \<longleftrightarrow> parentId r = Some i"
  "cell files_parentId r = Null \<longleftrightarrow> parentId r = None"
  by (simp_all split: option.splits)

lemma select_children:
  assumes "uuid_in p = Some i"
  shows "db_select tbl (And (Eq files_userId (JStr u)) (Eq files_parentId (JStr p))) =
           Some (nodes_of u (Some i) tbl)"
  unfolding db_select_def nodes_of_def
  using assms
  by (simp only: sql_and_true sql_eq_true binds.simps) (auto split: option.splits intro!: filter_cong)

lemma select_children_fails:
  assumes "uuid_in p = None"
  shows "db_select tbl (And (Eq files_userId (JStr u)) (Eq files_parentId (JStr p))) = None"
  using assms by (simp add: db_select_def)

lemma select_root:
  "db_select tbl (And (Eq files_userId (JStr u)) (IsNull files_parentId)) =
     Some (nodes_of u None tbl)"
  unfolding db_select_def nodes_of_def
  by (simp only: sql_and_true sql_eq_true sql_isNull_true binds.simps)
     (auto split: option.splits intro!: filter_cong)

lemma select_eq_null:
  "db_select tbl (And (Eq files_userId (JStr u)) (Eq files_parentId JNull)) = Some []"
  unfolding db_select_def
  by (simp only: sql_and_true sql_eq_true binds.simps) simp

lemma operand_uuid:
  "truthy v \<Longrightarrow> operand files_id v = map_option Uuid_value (uuid_param v)"
  by (cases v) simp_all

lemma select_parent:
  assumes "truthy pid" and "uuid_param pid = Some i"
  shows "db_select tbl
           (And (Eq files_id pid) (And (Eq files_userId (JStr u)) (Eq files_isFolder (JBool True)))) =
         Some (filter (\<lambda>r. id_col r = i \<and> userId r = u \<and> isFolder r) tbl)"
  unfolding db_select_def
  using assms
  by (simp only: sql_and_true sql_eq_true binds.simps) (auto simp: operand_uuid intro!: filter_cong)

lemma select_parent_fails:
  assumes "truthy pid" and "uuid_param pid = None"
  shows "db_select tbl
           (And (Eq files_id pid) (And (Eq files_userId (JStr u)) (Eq files_isFolder (JBool True)))) =
         None"
  using assms by (simp add: db_select_def operand_uuid)

lemma no_parent_folder:
  "filter (\<lambda>r. id_col r = i \<and> userId r = u \<and> isFolder r) tbl = [] \<longleftrightarrow>
   \<not> parent_folder_exists tbl u i"
  by (auto simp: parent_folder_exists_def filter_empty_conv list_ex_iff)

lemma trim_empty_iff: "trim s = [] \<longleftrightarrow> (\<forall>c \<in> set s. is_white_space c)"
proof
  assume "trim s = []"
  then have d: "dropWhile is_white_space (rev (dropWhile is_white_space s)) = []"
    by (simp add: trim_def)
  show "\<forall>c \<in> set s. is_white_space c"
  proof (cases "dropWhile is_white_space s")
    case Nil
    then show ?thesis by (simp add: dropWhile_eq_Nil_conv)
  next
    case (Cons x xs)
    then have "\<not> is_white_space x"
      using hd_dropWhile [of is_white_space s] by simp
    moreover from d Cons have "is_white_space x"
      by (simp add: dropWhile_eq_Nil_conv)
    ultimately show ?thesis by simp
  qed
next
  assume "\<forall>c \<in> set s. is_white_space c"
  then have e: "dropWhile is_white_space s = []"
    by (simp add: dropWhile_eq_Nil_conv)
  show "trim s = []"
    unfolding trim_def e by simp
qed

lemma template_path:
  "template [JStr a, JStr u, JStr c, v] =
     (case to_string v of None \<Rightarrow> None | Some s \<Rightarrow> Some (a @ u @ c @ s))"
  by (simp split: option.splits)

lemma well_formed_append:
  "well_formed s \<Longrightarrow> well_formed t \<Longrightarrow> well_formed (s @ t)"
proof (induction s rule: well_formed.induct)
  case 1
  then show ?case by simp
next
  case (2 c)
  then show ?case by (cases t) auto
next
  case (3 c d cs)
  then show ?case by (auto split: if_splits)
qed

lemma plain_text_append:
  "plain_text s \<Longrightarrow> plain_text t \<Longrightarrow> plain_text (s @ t)"
  by (simp add: plain_text_def well_formed_append)

lemma text_param_plain:
  "plain_text s \<Longrightarrow> text_param e (JStr s) = Some (Text s)"
  by (simp add: text_param_def plain_text_def)

lemma text_param_nul:
  "0 \<in> set s \<Longrightarrow> text_param e (JStr s) = None"
  by (simp add: text_param_def)

lemma text_param_Text:
  "text_param e v = Some (Text s) \<Longrightarrow> v = JStr s"
  by (cases v) (auto simp: text_param_def split: if_splits)

lemma files_GET_listed:
  assumes "u \<noteq> []" and "map_of sp (lit ''userId'') = Some u"
  shows "files_GET tbl (Some u) sp =
           (case listed_parent (map_of sp (lit ''parentId'')) of
              None \<Rightarrow> NextResponse_json (Error_body ''Failed to fetch files'') 500
            | Some parent \<Rightarrow> NextResponse_json (Files_body (nodes_of u parent tbl)) 200)"
proof (cases "map_of sp (lit ''parentId'')")
  case None
  with assms show ?thesis
    by (simp add: files_GET_def Let_def listed_parent_def select_root)
next
  case (Some p)
  show ?thesis
  proof (cases "p = []")
    case True
    with assms Some show ?thesis
      by (simp add: files_GET_def Let_def listed_parent_def select_root)
  next
    case False
    with assms Some show ?thesis
      by (cases "uuid_in p")
         (simp_all add: files_GET_def Let_def listed_parent_def select_children
            select_children_fails)
  qed
qed

lemma files_GET_mismatch:
  assumes "nullable (map_of sp (lit ''userId'')) \<noteq> nullable a"
  shows "files_GET tbl a sp = NextResponse_json (Error_body ''Unauthorized'') 401"
  using assms by (simp add: files_GET_def Let_def)

lemma folderData_get:
  "js_get (folderData e u n p pa) (lit ''id'') = JStr (uuid1 e)"
  "js_get (folderData e u n p pa) (lit ''name'') = JStr n"
  "js_get (folderData e u n p pa) (lit ''path'') = JStr p"
  "js_get (folderData e u n p pa) (lit ''size'') = JNum (lit ''0'')"
  "js_get (folderData e u n p pa) (lit ''type'') = JStr (lit ''folder'')"
  "js_get (folderData e u n p pa) (lit ''fileUrl'') = JStr []"
  "js_get (folderData e u n p pa) (lit ''thumbnailUrl'') = JNull"
  "js_get (folderData e u n p pa) (lit ''userId'') = u"
  "js_get (folderData e u n p pa) (lit ''parentId'') = pa"
  "js_get (folderData e u n p pa) (lit ''isFolder'') = JBool True"
  "js_get (folderData e u n p pa) (lit ''isStarred'') = JBool False"
  "js_get (folderData e u n p pa) (lit ''isTrash'') = JBool False"
  by (simp_all add: folderData_def lit_def)

lemma fileData_get:
  "js_get (fileData u ik p) (lit ''id'') = JUndefined"
  "js_get (fileData u ik p) (lit ''name'') =
     js_or (js_get ik (lit ''name'')) (JStr (lit ''Untitled''))"
  "js_get (fileData u ik p) (lit ''path'') = p"
  "js_get (fileData u ik p) (lit ''size'') = js_or (js_get ik (lit ''size'')) (JNum (lit ''0''))"
  "js_get (fileData u ik p) (lit ''type'') =
     js_or (js_get ik (lit ''fileType'')) (JStr (lit ''image''))"
  "js_get (fileData u ik p) (lit ''fileUrl'') = js_get ik (lit ''url'')"
  "js_get (fileData u ik p) (lit ''thumbnailUrl'') = js_or (js_get ik (lit ''thumbnailUrl'')) JNull"
  "js_get (fileData u ik p) (lit ''userId'') = u"
  "js_get (fileData u ik p) (lit ''parentId'') = JNull"
  "js_get (fileData u ik p) (lit ''isFolder'') = JBool False"
  "js_get (fileData u ik p) (lit ''isStarred'') = JBool False"
  "js_get (fileData u ik p) (lit ''isTrash'') = JBool False"
  by (simp_all add: fileData_def lit_def)

lemma literal_cells:
  "text_param e (JStr (lit ''folder'')) = Some (Text (lit ''folder''))"
  "text_param e (JStr (lit ''image'')) = Some (Text (lit ''image''))"
  "text_param e (JStr (lit ''Untitled'')) = Some (Text (lit ''Untitled''))"
  "text_param e (JStr []) = Some (Text [])"
  "int4in (lit ''0'') = Some 0"
  by (simp_all add: text_param_def surrogate_defs int_eval)

lemma new_row_folderData:
  "new_row e (folderData e (JStr u) n p pa) =
     (case uuid_in (uuid1 e) of
        None \<Rightarrow> None
      | Some i \<Rightarrow>
          (case text_param e (JStr n) of
             None \<Rightarrow> None
           | Some nc \<Rightarrow>
               (case text_param e (JStr p) of
                  None \<Rightarrow> None
                | Some pc \<Rightarrow>
                    (case nullable_uuid_param pa of
                       None \<Rightarrow> None
                     | Some pac \<Rightarrow>
                         Some \<lparr>id_col = i, name = nc, path = pc, size_col = 0,
                               type_col = Text (lit ''folder''), fileUrl = Text [],
                               thumbnailUrl = None, userId = u, parentId = pac,
                               isFolder = True, isStarred = False, isTrash = False,
                               createdAt = now e, updatedAt = now e\<rparr>))))"
  by (simp add: new_row_def folderData_get literal_cells id_param_def nullable_text_param_def
        split: option.splits)

lemma new_row_fileData:
  "new_row e (fileData (JStr u) ik p) =
     (case text_param e (js_or (js_get ik (lit ''name'')) (JStr (lit ''Untitled''))) of
        None \<Rightarrow> None
      | Some nc \<Rightarrow>
          (case text_param e p of
             None \<Rightarrow> None
           | Some pc \<Rightarrow>
               (case int_param (js_or (js_get ik (lit ''size'')) (JNum (lit ''0''))) of
                  None \<Rightarrow> None
                | Some sc \<Rightarrow>
                    (case text_param e (js_or (js_get ik (lit ''fileType'')) (JStr (lit ''image''))) of
                       None \<Rightarrow> None
                     | Some tc \<Rightarrow>
                         (case text_param e (js_get ik (lit ''url'')) of
                            None \<Rightarrow> None
                          | Some fc \<Rightarrow>
                              (case nullable_text_param e
                                      (js_or (js_get ik (lit ''thumbnailUrl'')) JNull) of
                                 None \<Rightarrow> None
                               | Some thc \<Rightarrow>
                                   Some \<lparr>id_col = gen_random_uuid e, name = nc, path = pc,
                                         size_col = sc, type_col = tc, fileUrl = fc,
                                         thumbnailUrl = thc, userId = u, parentId = None,
                                         isFolder = False, isStarred = False, isTrash = False,
                                         createdAt = now e, updatedAt = now e\<rparr>))))))"
  by (simp add: new_row_def fileData_get id_param_def nullable_uuid_param_def
        split: option.splits)

lemma db_insert_SomeD:
  "db_insert e tbl d = Some (tbl', r) \<Longrightarrow>
   new_row e d = Some r \<and> tbl' = tbl @ [r] \<and> id_col r \<notin> id_col ` set tbl"
  by (auto simp: db_insert_def split: option.splits if_splits)

lemma db_insert_new:
  "new_row e d = Some r \<Longrightarrow> id_col r \<notin> id_col ` set tbl \<Longrightarrow>
   db_insert e tbl d = Some (tbl @ [r], r)"
  by (simp add: db_insert_def)

lemma db_insert_refused:
  "new_row e d = None \<Longrightarrow> db_insert e tbl d = None"
  by (simp add: db_insert_def)

lemma upload_row_shape:
  assumes "new_row e (fileData (JStr u) ik p) = Some r" and "truthy (js_get ik (lit ''url''))"
  shows "\<not> isFolder r \<and> \<not> isStarred r \<and> \<not> isTrash r \<and> fileUrl r \<noteq> Text []
         \<and> parentId r = None \<and> userId r = u \<and> id_col r = gen_random_uuid e
         \<and> createdAt r = now e \<and> updatedAt r = now e
         \<and> text_param e (js_get ik (lit ''url'')) = Some (fileUrl r)"
proof -
  from assms(1) have f: "text_param e (js_get ik (lit ''url'')) = Some (fileUrl r)"
    and rest: "\<not> isFolder r \<and> \<not> isStarred r \<and> \<not> isTrash r
         \<and> parentId r = None \<and> userId r = u \<and> id_col r = gen_random_uuid e
         \<and> createdAt r = now e \<and> updatedAt r = now e"
    by (auto simp: new_row_fileData split: option.splits)
  have "fileUrl r \<noteq> Text []"
  proof
    assume "fileUrl r = Text []"
    with f have "js_get ik (lit ''url'') = JStr []" by (simp add: text_param_Text)
    with assms(2) show False by simp
  qed
  with f rest show ?thesis by simp
qed

lemma folder_row_shape:
  assumes "new_row e (folderData e (JStr u) n p pa) = Some r"
  shows "size_col r = 0 \<and> fileUrl r = Text [] \<and> type_col r = Text (lit ''folder'')
         \<and> isFolder r \<and> \<not> isStarred r \<and> \<not> isTrash r \<and> userId r = u
         \<and> createdAt r = now e \<and> updatedAt r = now e"
  using assms by (auto simp: new_row_folderData split: option.splits)

lemma falsy_no_uuid: "\<not> truthy v \<Longrightarrow> uuid_param v = None"
  by (cases v) (simp_all add: uuid_eval)

lemma uuid_param_truthy: "uuid_param v = Some i \<Longrightarrow> truthy v"
  using falsy_no_uuid [of v] by auto

lemma js_get_truthy: "js_get v k \<noteq> JUndefined \<Longrightarrow> truthy v"
  by (cases v) simp_all

subsection \<open>The folder-creation handler\<close>

lemma folders_create_mismatch:
  assumes "b \<noteq> JNull" and "b \<noteq> JUndefined" and "js_get b (lit ''userId'') \<noteq> nullable a"
  shows "folders_create_POST e tbl a (Some b) =
           (NextResponse_json (Error_body ''Unauthorized'') 401, tbl)"
  using assms by (simp add: folders_create_POST_def Let_def)

lemma folders_create_no_name:
  assumes "u \<noteq> []" and "b \<noteq> JNull" and "b \<noteq> JUndefined"
    and "js_get b (lit ''userId'') = JStr u"
    and "\<forall>s. js_get b (lit ''name'') = JStr s \<longrightarrow> trim s = []"
  shows "folders_create_POST e tbl (Some u) (Some b) =
           (NextResponse_json (Error_body ''Folder name is required'') 400, tbl)"
  using assms
  by (cases "js_get b (lit ''name'')") (simp_all add: folders_create_POST_def Let_def)

text \<open>
  Past the checks of the session, the body's user id and the name, the handler's answer
  is decided by the parent id and by the insert.
\<close>

lemma folders_create_named:
  assumes "u \<noteq> []" and "b \<noteq> JNull" and "b \<noteq> JUndefined"
    and "js_get b (lit ''userId'') = JStr u"
    and "js_get b (lit ''name'') = JStr s" and "trim s \<noteq> []"
    and "pid = (if js_get b (lit ''parentId'') = JUndefined then JNull
                else js_get b (lit ''parentId''))"
  shows "folders_create_POST e tbl (Some u) (Some b) =
           (case (if truthy pid
                  then db_select tbl
                         (And (Eq files_id pid)
                            (And (Eq files_userId (JStr u)) (Eq files_isFolder (JBool True))))
                  else Some []) of
              None \<Rightarrow> (NextResponse_json (Error_body ''Failed to create folder'') 500, tbl)
            | Some parentFolder \<Rightarrow>
                if truthy pid \<and> parentFolder = []
                then (NextResponse_json (Error_body ''Parent folder not found'') 404, tbl)
                else
                  (case db_insert e tbl
                          (folderData e (JStr u) (trim s)
                             (lit ''/folders/'' @ u @ lit ''/'' @ uuid2 e) pid) of
                     None \<Rightarrow> (NextResponse_json (Error_body ''Failed to create folder'') 500, tbl)
                   | Some (tbl', newFolder) \<Rightarrow>
                       (NextResponse_json
                          (Folder_body True ''Folder created successfully'' newFolder) 200,
                        tbl')))"
proof -
  have s: "s \<noteq> []" using assms(6) by (auto simp: trim_def)
  show ?thesis
    using assms(1-6) s unfolding assms(7)
    by (simp add: folders_create_POST_def Let_def template_path split: option.splits)
qed

lemma folders_create_no_parent:
  assumes "u \<noteq> []" and "b \<noteq> JNull" and "b \<noteq> JUndefined"
    and "js_get b (lit ''userId'') = JStr u"
    and "js_get b (lit ''name'') = JStr s" and "trim s \<noteq> []"
    and "truthy (js_get b (lit ''parentId''))"
    and "uuid_param (js_get b (lit ''parentId'')) = Some i"
    and "\<not> parent_folder_exists tbl u i"
  shows "folders_create_POST e tbl (Some u) (Some b) =
           (NextResponse_json (Error_body ''Parent folder not found'') 404, tbl)"
proof -
  have p: "js_get b (lit ''parentId'') \<noteq> JUndefined"
    using assms(7) by auto
  show ?thesis
    unfolding folders_create_named [OF assms(1-6) refl]
    using assms(7-9) p by (simp add: select_parent no_parent_folder)
qed

lemma folders_create_bad_parent:
  assumes "u \<noteq> []" and "b \<noteq> JNull" and "b \<noteq> JUndefined"
    and "js_get b (lit ''userId'') = JStr u"
    and "js_get b (lit ''name'') = JStr s" and "trim s \<noteq> []"
    and "js_get b (lit ''parentId'') \<noteq> JUndefined" and "js_get b (lit ''parentId'') \<noteq> JNull"
    and "uuid_param (js_get b (lit ''parentId'')) = None"
  shows "folders_create_POST e tbl (Some u) (Some b) =
           (NextResponse_json (Error_body ''Failed to create folder'') 500, tbl)"
proof (cases "truthy (js_get b (lit ''parentId''))")
  case True
  show ?thesis
    unfolding folders_create_named [OF assms(1-6) refl]
    using assms(7-9) True by (simp add: select_parent_fails)
next
  case False
  have "new_row e (folderData e (JStr u) (trim s) (lit ''/folders/'' @ u @ lit ''/'' @ uuid2 e)
                    (js_get b (lit ''parentId''))) = None"
    using assms(7-9) by (simp add: new_row_folderData nullable_uuid_param_def split: option.splits)
  then show ?thesis
    unfolding folders_create_named [OF assms(1-6) refl]
    using assms(7) False by (simp add: db_insert_refused)
qed

lemma folders_create_refused_name:
  assumes "u \<noteq> []" and "b \<noteq> JNull" and "b \<noteq> JUndefined"
    and "js_get b (lit ''userId'') = JStr u"
    and "js_get b (lit ''name'') = JStr s" and "trim s \<noteq> []"
    and "js_get b (lit ''parentId'') = JUndefined \<or> js_get b (lit ''parentId'') = JNull"
    and "0 \<in> set (trim s)"
  shows "folders_create_POST e tbl (Some u) (Some b) =
           (NextResponse_json (Error_body ''Failed to create folder'') 500, tbl)"
proof -
  have "new_row e (folderData e (JStr u) (trim s) (lit ''/folders/'' @ u @ lit ''/'' @ uuid2 e)
                    JNull) = None"
    using assms(8) by (simp add: new_row_folderData text_param_nul split: option.splits)
  then show ?thesis
    unfolding folders_create_named [OF assms(1-6) refl]
    using assms(7) by (auto simp: db_insert_refused)
qed

lemma folders_create_root:
  assumes "u \<noteq> []" and "b \<noteq> JNull" and "b \<noteq> JUndefined"
    and "js_get b (lit ''userId'') = JStr u"
    and "js_get b (lit ''name'') = JStr s" and "trim s \<noteq> []"
    and "js_get b (lit ''parentId'') = JUndefined \<or> js_get b (lit ''parentId'') = JNull"
    and "plain_text (trim s)"
    and "plain_text (lit ''/folders/'' @ u @ lit ''/'' @ uuid2 e)"
    and "uuid_in (uuid1 e) = Some i" and "i \<notin> id_col ` set tbl"
  shows "folders_create_POST e tbl (Some u) (Some b) =
           (let r = \<lparr>id_col = i, name = Text (trim s),
                     path = Text (lit ''/folders/'' @ u @ lit ''/'' @ uuid2 e),
                     size_col = 0, type_col = Text (lit ''folder''), fileUrl = Text [],
                     thumbnailUrl = None, userId = u, parentId = None,
                     isFolder = True, isStarred = False, isTrash = False,
                     createdAt = now e, updatedAt = now e\<rparr>
            in (NextResponse_json (Folder_body True ''Folder created successfully'' r) 200,
                tbl @ [r]))"
proof -
  let ?r = "\<lparr>id_col = i, name = Text (trim s),
                     path = Text (lit ''/folders/'' @ u @ lit ''/'' @ uuid2 e),
                     size_col = 0, type_col = Text (lit ''folder''), fileUrl = Text [],
                     thumbnailUrl = None, userId = u, parentId = None,
                     isFolder = True, isStarred = False, isTrash = False,
                     createdAt = now e, updatedAt = now e\<rparr>"
  have "new_row e (folderData e (JStr u) (trim s) (lit ''/folders/'' @ u @ lit ''/'' @ uuid2 e)
                    JNull) = Some ?r"
    using assms(8-10) by (simp add: new_row_folderData text_param_plain nullable_uuid_param_def)
  then have "db_insert e tbl
               (folderData e (JStr u) (trim s) (lit ''/folders/'' @ u @ lit ''/'' @ uuid2 e) JNull) =
             Some (tbl @ [?r], ?r)"
    using assms(11) by (simp add: db_insert_new)
  then show ?thesis
    unfolding folders_create_named [OF assms(1-6) refl] Let_def
    using assms(7) by auto
qed

text \<open>
  Every run of the handler either answers an error and leaves the table as it was, or
  appends one row, the folder it answers with.
\<close>

lemma folders_create_POST_shape:
  "(status (fst (folders_create_POST e tbl a rq)) \<in> {401, 400, 404, 500}
      \<and> snd (folders_create_POST e tbl a rq) = tbl)
   \<or> (\<exists>r. folders_create_POST e tbl a rq =
            (NextResponse_json (Folder_body True ''Folder created successfully'' r) 200, tbl @ [r])
          \<and> size_col r = 0 \<and> fileUrl r = Text [] \<and> type_col r = Text (lit ''folder'')
          \<and> isFolder r \<and> \<not> isStarred r \<and> \<not> isTrash r)"
proof -
  have ins: "\<And>u n p pa tbl' r. db_insert e tbl (folderData e (JStr u) n p pa) = Some (tbl', r) \<Longrightarrow>
      tbl' = tbl @ [r] \<and> size_col r = 0 \<and> fileUrl r = Text [] \<and> type_col r = Text (lit ''folder'')
          \<and> isFolder r \<and> \<not> isStarred r \<and> \<not> isTrash r"
    using db_insert_SomeD folder_row_shape by blast
  show ?thesis
  proof (cases a)
    case None
    then show ?thesis
      by (simp add: folders_create_POST_def Let_def NextResponse_json_def)
  next
    case (Some u)
    show ?thesis
    proof (cases "u = [] \<or> rq = None \<or> rq = Some JNull \<or> rq = Some JUndefined")
      case True
      with Some show ?thesis
        by (auto simp: folders_create_POST_def Let_def NextResponse_json_def)
    next
      case False
      then obtain b where b: "rq = Some b" "b \<noteq> JNull" "b \<noteq> JUndefined" and u: "u \<noteq> []"
        by (cases rq) auto
      show ?thesis
      proof (cases "js_get b (lit ''userId'') = JStr u")
        case False
        then have "js_get b (lit ''userId'') \<noteq> nullable a"
          using Some by simp
        from folders_create_mismatch [OF b(2,3) this, of e tbl] show ?thesis
          by (simp add: b(1) NextResponse_json_def)
      next
        case match: True
        show ?thesis
        proof (cases "\<exists>s. js_get b (lit ''name'') = JStr s \<and> trim s \<noteq> []")
          case False
          then have "\<forall>s. js_get b (lit ''name'') = JStr s \<longrightarrow> trim s = []"
            by blast
          from folders_create_no_name [OF u b(2,3) match this, of e tbl] show ?thesis
            by (simp add: b(1) Some NextResponse_json_def)
        next
          case True
          then obtain s where s: "js_get b (lit ''name'') = JStr s" "trim s \<noteq> []"
            by blast
          show ?thesis
            unfolding Some b(1) folders_create_named [OF u b(2,3) match s refl]
            by (auto simp: NextResponse_json_def split: option.splits dest!: ins)
        qed
      qed
    qed
  qed
qed

subsection \<open>The upload-recording handler\<close>

lemma upload_mismatch:
  assumes "b \<noteq> JNull" and "b \<noteq> JUndefined" and "js_get b (lit ''userId'') \<noteq> nullable a"
  shows "upload_POST e tbl a (Some b) =
           (NextResponse_json (Error_body ''Unauthorized'') 401, tbl)"
  using assms by (simp add: upload_POST_def Let_def)

lemma upload_invalid:
  assumes "u \<noteq> []" and "b \<noteq> JNull" and "b \<noteq> JUndefined"
    and "js_get b (lit ''userId'') = JStr u"
    and "\<not> truthy (js_get b (lit ''imagekit''))
         \<or> \<not> truthy (js_get (js_get b (lit ''imagekit'')) (lit ''url''))"
  shows "upload_POST e tbl (Some u) (Some b) =
           (NextResponse_json (Error_body ''Invalid file upload data'') 400, tbl)"
  using assms by (auto simp: upload_POST_def Let_def)

lemma upload_valid:
  assumes "u \<noteq> []" and "b \<noteq> JNull" and "b \<noteq> JUndefined"
    and "js_get b (lit ''userId'') = JStr u"
    and "js_get b (lit ''imagekit'') = ik"
    and "truthy ik" and "truthy (js_get ik (lit ''url''))"
  shows "upload_POST e tbl (Some u) (Some b) =
           (case upload_path u ik of
              None \<Rightarrow> (NextResponse_json (Error_body ''Failed to save file information'') 500, tbl)
            | Some p \<Rightarrow>
                (case db_insert e tbl (fileData (JStr u) ik p) of
                   None \<Rightarrow>
                     (NextResponse_json (Error_body ''Failed to save file information'') 500, tbl)
                 | Some (tbl', newFile) \<Rightarrow> (NextResponse_json (File_body newFile) 200, tbl')))"
  using assms
  by (simp add: upload_POST_def Let_def template_path upload_path_def split: option.splits)

lemma upload_throws:
  assumes "u \<noteq> []" and "b \<noteq> JNull" and "b \<noteq> JUndefined"
    and "js_get b (lit ''userId'') = JStr u"
    and "js_get b (lit ''imagekit'') = ik"
    and "truthy ik" and "truthy (js_get ik (lit ''url''))"
    and "\<not> truthy (js_get ik (lit ''filePath''))"
    and "to_string (js_get ik (lit ''name'')) = None"
  shows "upload_POST e tbl (Some u) (Some b) =
           (NextResponse_json (Error_body ''Failed to save file information'') 500, tbl)"
  unfolding upload_valid [OF assms(1-7)]
  using assms(8,9) by (simp add: upload_path_def)

lemma upload_refused_size:
  assumes "u \<noteq> []" and "b \<noteq> JNull" and "b \<noteq> JUndefined"
    and "js_get b (lit ''userId'') = JStr u"
    and "js_get b (lit ''imagekit'') = ik"
    and "truthy ik" and "truthy (js_get ik (lit ''url''))"
    and "truthy (js_get ik (lit ''size''))"
    and "int_param (js_get ik (lit ''size'')) = None"
  shows "upload_POST e tbl (Some u) (Some b) =
           (NextResponse_json (Error_body ''Failed to save file information'') 500, tbl)"
proof -
  have "\<And>p. new_row e (fileData (JStr u) ik p) = None"
    using assms(8,9) by (simp add: new_row_fileData js_or_def split: option.splits)
  then show ?thesis
    unfolding upload_valid [OF assms(1-7)]
    by (simp add: db_insert_refused split: option.splits)
qed

lemma plain_literals:
  "plain_text (lit ''/droply/'')" "plain_text (lit ''/'')" "plain_text (lit ''undefined'')"
  "plain_text (lit ''Untitled'')" "plain_text (lit ''image'')" "plain_text (lit ''/folders/'')"
  by (simp_all add: plain_text_def surrogate_defs lit_def)

lemma optional_text_cell:
  assumes "optional_text v" and "plain_text d"
  shows "\<exists>s. text_param e (js_or v (JStr d)) = Some (Text s)"
  using assms by (cases v) (auto simp: js_or_def text_param_plain)

lemma optional_text_nullable:
  assumes "optional_text v"
  shows "\<exists>c. nullable_text_param e (js_or v JNull) = Some c"
  using assms by (cases v) (auto simp: js_or_def nullable_text_param_def text_param_plain)

lemma optional_integer_cell:
  assumes "optional_integer v"
  shows "\<exists>n. int_param (js_or v (JNum (lit ''0''))) = Some n"
  using assms by (cases v) (auto simp: js_or_def literal_cells)

lemma upload_path_plain:
  assumes "optional_text (js_get ik (lit ''name''))"
    and "optional_text (js_get ik (lit ''filePath''))" and "plain_text u"
  shows "\<exists>s. upload_path u ik = Some (JStr s) \<and> plain_text s"
proof (cases "truthy (js_get ik (lit ''filePath''))")
  case True
  with assms(2) show ?thesis
    by (cases "js_get ik (lit ''filePath'')") (auto simp: upload_path_def)
next
  case False
  from assms(1) obtain x where x: "to_string (js_get ik (lit ''name'')) = Some x" "plain_text x"
    by (cases "js_get ik (lit ''name'')") (auto simp: plain_literals)
  have "plain_text (lit ''/droply/'' @ u @ lit ''/'' @ x)"
    using assms(3) x(2) by (intro plain_text_append plain_literals)
  with False x(1) show ?thesis by (simp add: upload_path_def)
qed

lemma upload_persists:
  assumes "u \<noteq> []" and "b \<noteq> JNull" and "b \<noteq> JUndefined"
    and "js_get b (lit ''userId'') = JStr u"
    and "js_get b (lit ''imagekit'') = ik"
    and "truthy ik" and "upload_result ik url" and "plain_text u"
    and "gen_random_uuid e \<notin> id_col ` set tbl"
  shows "\<exists>r. upload_POST e tbl (Some u) (Some b) =
               (NextResponse_json (File_body r) 200, tbl @ [r])
             \<and> \<not> isFolder r \<and> fileUrl r = Text url
             \<and> userId r = u \<and> id_col r = gen_random_uuid e
             \<and> createdAt r = now e \<and> updatedAt r = now e"
proof -
  from assms(7) have url: "js_get ik (lit ''url'') = JStr url" "url \<noteq> []" "plain_text url"
    and nm: "optional_text (js_get ik (lit ''name''))"
    and fp: "optional_text (js_get ik (lit ''filePath''))"
    and sz: "optional_integer (js_get ik (lit ''size''))"
    and ty: "optional_text (js_get ik (lit ''fileType''))"
    and th: "optional_text (js_get ik (lit ''thumbnailUrl''))"
    by (simp_all add: upload_result_def)
  have t: "truthy (js_get ik (lit ''url''))" using url by simp
  from upload_path_plain [OF nm fp assms(8)] obtain p
    where p: "upload_path u ik = Some (JStr p)" "plain_text p" by blast
  from optional_text_cell [OF nm plain_literals(4)] obtain nc
    where nc: "text_param e (js_or (js_get ik (lit ''name'')) (JStr (lit ''Untitled''))) = Some (Text nc)"
    by blast
  from optional_text_cell [OF ty plain_literals(5)] obtain tc
    where tc: "text_param e (js_or (js_get ik (lit ''fileType'')) (JStr (lit ''image''))) = Some (Text tc)"
    by blast
  from optional_integer_cell [OF sz] obtain n
    where n: "int_param (js_or (js_get ik (lit ''size'')) (JNum (lit ''0''))) = Some n"
    by blast
  from optional_text_nullable [OF th] obtain thc
    where thc: "nullable_text_param e (js_or (js_get ik (lit ''thumbnailUrl'')) JNull) = Some thc"
    by blast
  let ?r = "\<lparr>id_col = gen_random_uuid e, name = Text nc, path = Text p,
             size_col = n, type_col = Text tc, fileUrl = Text url,
             thumbnailUrl = thc, userId = u, parentId = None,
             isFolder = False, isStarred = False, isTrash = False,
             createdAt = now e, updatedAt = now e\<rparr>"
  have "new_row e (fileData (JStr u) ik (JStr p)) = Some ?r"
    by (simp add: new_row_fileData nc tc n thc url text_param_plain p(2))
  then have "db_insert e tbl (fileData (JStr u) ik (JStr p)) = Some (tbl @ [?r], ?r)"
    using assms(9) by (simp add: db_insert_new)
  then have "upload_POST e tbl (Some u) (Some b) =
               (NextResponse_json (File_body ?r) 200, tbl @ [?r])"
    unfolding upload_valid [OF assms(1-6) t] by (simp add: p(1))
  then show ?thesis by simp
qed

text \<open>
  Every run of the handler either answers an error and leaves the table as it was, or
  appends one row, the file it answers with.
\<close>

lemma upload_POST_shape:
  "(status (fst (upload_POST e tbl a rq)) \<in> {401, 400, 500} \<and> snd (upload_POST e tbl a rq) = tbl)
   \<or> (\<exists>r. upload_POST e tbl a rq = (NextResponse_json (File_body r) 200, tbl @ [r])
          \<and> \<not> isFolder r \<and> \<not> isStarred r \<and> \<not> isTrash r \<and> fileUrl r \<noteq> Text []
          \<and> (\<exists>v. truthy v \<and> text_param e v = Some (fileUrl r))
          \<and> parentId r = None)"
proof (cases a)
  case None
  then show ?thesis
    by (simp add: upload_POST_def Let_def NextResponse_json_def)
next
  case (Some u)
  show ?thesis
  proof (cases "u = [] \<or> rq = None \<or> rq = Some JNull \<or> rq = Some JUndefined")
    case True
    with Some show ?thesis
      by (auto simp: upload_POST_def Let_def NextResponse_json_def)
  next
    case False
    then obtain b where b: "rq = Some b" "b \<noteq> JNull" "b \<noteq> JUndefined" and u: "u \<noteq> []"
      by (cases rq) auto
    show ?thesis
    proof (cases "js_get b (lit ''userId'') = JStr u")
      case False
      then have "js_get b (lit ''userId'') \<noteq> nullable a"
        using Some by simp
      from upload_mismatch [OF b(2,3) this, of e tbl] show ?thesis
        by (simp add: b(1) NextResponse_json_def)
    next
      case match: True
      let ?ik = "js_get b (lit ''imagekit'')"
      show ?thesis
      proof (cases "truthy ?ik \<and> truthy (js_get ?ik (lit ''url''))")
        case False
        then have "\<not> truthy ?ik \<or> \<not> truthy (js_get ?ik (lit ''url''))" by blast
        from upload_invalid [OF u b(2,3) match this, of e tbl] show ?thesis
          by (simp add: b(1) Some NextResponse_json_def)
      next
        case True
        then have t: "truthy ?ik" "truthy (js_get ?ik (lit ''url''))" by simp_all
        have ins: "\<And>p tbl' r. db_insert e tbl (fileData (JStr u) ?ik p) = Some (tbl', r) \<Longrightarrow>
            tbl' = tbl @ [r] \<and> \<not> isFolder r \<and> \<not> isStarred r \<and> \<not> isTrash r
            \<and> fileUrl r \<noteq> Text [] \<and> (\<exists>v. truthy v \<and> text_param e v = Some (fileUrl r))
            \<and> parentId r = None"
          using db_insert_SomeD upload_row_shape [OF _ t(2)] t(2) by blast
        show ?thesis
          unfolding Some b(1) upload_valid [OF u b(2,3) match refl t]
          by (auto simp: NextResponse_json_def split: option.splits dest!: ins)
      qed
    qed
  qed
qed

subsection \<open>The handlers on the example data\<close>

lemma U1_nonempty: "U1 \<noteq> []"
  by (simp add: U1_def lit_def)

lemma U2_nonempty: "U2 \<noteq> []"
  by (simp add: U2_def lit_def)

lemma example_spellings:
  "uuid_in (lit ''00000000-0000-4000-8000-0000000000f1'') = Some (example_id 0xF1)"
  "uuid_in (lit ''{00000000-0000-4000-8000-0000000000F1}'') = Some (example_id 0xF1)"
  "uuid_in (lit ''00000000-0000-4000-8000-000000000001'') = Some (example_id 0x01)"
  "uuid_in (lit ''00000000-0000-4000-8000-0000000000f9'') = Some (example_id 0xF9)"
  "uuid_in (lit ''docs'') = None"
  "uuid_in [] = None"
  by (simp_all add: uuid_eval example_id_def)

lemma example_ids_new:
  "example_id 0xF9 \<notin> id_col ` set tbl0" "example_id 0x09 \<notin> id_col ` set tbl0"
  by (simp_all add: example_defs)

lemma create_trips:
  "folders_create_POST env0 tbl0 (Some U1) (Some (folder_request (lit '' Trips '') U1 JNull)) =
     (NextResponse_json (Folder_body True ''Folder created successfully'' trips) 200,
      tbl0 @ [trips])"
proof -
  let ?b = "folder_request (lit '' Trips '') U1 JNull"
  have b: "?b \<noteq> JNull" "?b \<noteq> JUndefined" "js_get ?b (lit ''userId'') = JStr U1"
    "js_get ?b (lit ''name'') = JStr (lit '' Trips '')"
    "js_get ?b (lit ''parentId'') = JUndefined \<or> js_get ?b (lit ''parentId'') = JNull"
    by (simp_all add: folder_request_def lit_def)
  have t: "trim (lit '' Trips '') = lit ''Trips''"
    by (simp add: lit_def trim_def is_white_space_def)
  have n: "trim (lit '' Trips '') \<noteq> []" "plain_text (trim (lit '' Trips ''))"
    unfolding t by (simp_all add: plain_text_def surrogate_defs lit_def)
  have p: "plain_text (lit ''/folders/'' @ U1 @ lit ''/'' @ uuid2 env0)"
    by (simp add: plain_text_def surrogate_defs lit_def U1_def env0_def)
  have i: "uuid_in (uuid1 env0) = Some (example_id 0xF9)"
    by (simp add: env0_def example_spellings)
  show ?thesis
    unfolding folders_create_root [OF U1_nonempty b(1-4) n(1) b(5) n(2) p i example_ids_new(1)] t
    by (simp add: Let_def trips_def env0_def U1_def lit_def)
qed

lemma y_imagekit_result: "upload_result y_imagekit (lit ''https://cdn/y.jpg'')"
  by (simp add: upload_result_def y_imagekit_def plain_text_def surrogate_defs int_eval)

lemma upload_y_jpg:
  "upload_POST env0 tbl0 (Some U1) (Some (upload_request U1 y_imagekit)) =
     (NextResponse_json (File_body y_jpg) 200, tbl0 @ [y_jpg])"
proof -
  let ?b = "upload_request U1 y_imagekit"
  have b: "?b \<noteq> JNull" "?b \<noteq> JUndefined" "js_get ?b (lit ''userId'') = JStr U1"
    "js_get ?b (lit ''imagekit'') = y_imagekit"
    by (simp_all add: upload_request_def lit_def)
  have y: "truthy y_imagekit" "truthy (js_get y_imagekit (lit ''url''))"
    by (simp_all add: y_imagekit_def lit_def)
  have p: "upload_path U1 y_imagekit = Some (JStr (lit ''/droply/U1/y.jpg''))"
    by (simp add: upload_path_def y_imagekit_def U1_def lit_def)
  have r: "new_row env0 (fileData (JStr U1) y_imagekit (JStr (lit ''/droply/U1/y.jpg''))) =
             Some y_jpg"
    by (simp add: new_row_fileData y_imagekit_def js_or_def text_param_def nullable_text_param_def
          surrogate_defs int_eval y_jpg_def env0_def)
  have i: "id_col y_jpg \<notin> id_col ` set tbl0"
    by (simp add: y_jpg_def example_ids_new)
  show ?thesis
    unfolding upload_valid [OF U1_nonempty b y] p
    by (simp add: db_insert_new [OF r i])
qed

lemma create_in_file:
  "folders_create_POST env0 tbl0 (Some U1)
     (Some (folder_request (lit ''Docs'') U1 (JStr (lit ''00000000-0000-4000-8000-000000000001'')))) =
     (NextResponse_json (Error_body ''Parent folder not found'') 404, tbl0)"
proof -
  let ?b = "folder_request (lit ''Docs'') U1 (JStr (lit ''00000000-0000-4000-8000-000000000001''))"
  have b: "?b \<noteq> JNull" "?b \<noteq> JUndefined" "js_get ?b (lit ''userId'') = JStr U1"
    "js_get ?b (lit ''name'') = JStr (lit ''Docs'')"
    and p: "js_get ?b (lit ''parentId'') = JStr (lit ''00000000-0000-4000-8000-000000000001'')"
    by (simp_all add: folder_request_def lit_def)
  have n: "trim (lit ''Docs'') \<noteq> []"
    by (simp add: lit_def trim_def is_white_space_def)
  have t: "truthy (js_get ?b (lit ''parentId''))"
    unfolding p by (simp add: lit_def)
  have i: "uuid_param (js_get ?b (lit ''parentId'')) = Some (example_id 0x01)"
    unfolding p by (simp add: example_spellings)
  have x: "\<not> parent_folder_exists tbl0 U1 (example_id 0x01)"
    by (simp add: parent_folder_exists_def example_defs lit_def)
  show ?thesis
    by (rule folders_create_no_parent [OF U1_nonempty b n t i x])
qed

lemma upload_without_imagekit:
  "upload_POST env0 tbl0 (Some U1) (Some (upload_request U1 JUndefined)) =
     (NextResponse_json (Error_body ''Invalid file upload data'') 400, tbl0)"
  by (simp add: upload_POST_def upload_request_def Let_def U1_def lit_def)

section \<open>The claims\<close>

subsection \<open>Listing\<close>

text \<open>
  Claim C1, as amended. For a caller who is signed in and asks for the listing of their
  own user id: when the \<^verbatim>\<open>parentId\<close> parameter spells a uuid, in any spelling, the
  handler answers 200 with exactly the rows of the table whose userId is the caller's id
  and whose parentId is that uuid; when the parameter is absent or empty, with exactly the
  caller's rows whose parentId is null; when it is any other text, the query throws and
  the handler answers 500. No row of an answer belongs to another owner, whatever rows
  other owners have under the same parent id.
\<close>

theorem files_GET_lists_owner_and_parent:
  assumes "u \<noteq> []" and "map_of sp (lit ''userId'') = Some u"
  shows "(\<forall>parent. listed_parent (map_of sp (lit ''parentId'')) = Some parent
            \<longrightarrow> files_GET tbl (Some u) sp =
                  NextResponse_json (Files_body (nodes_of u parent tbl)) 200)
         \<and> (listed_parent (map_of sp (lit ''parentId'')) = None
            \<longrightarrow> files_GET tbl (Some u) sp =
                  NextResponse_json (Error_body ''Failed to fetch files'') 500)
         \<and> (\<forall>r \<in> set (rows_of (files_GET tbl (Some u) sp)). userId r = u)"
proof -
  note listed = files_GET_listed [OF assms, of tbl]
  have "\<forall>r \<in> set (rows_of (files_GET tbl (Some u) sp)). userId r = u"
    unfolding listed
    by (simp add: NextResponse_json_def nodes_of_def rows_of_def split: option.splits)
  with listed show ?thesis by simp
qed

text \<open>
  U1 lists the folder Vacation, spelling its id in upper case and in braces: the starred
  and the trashed file of U1 come back, the file of U2 under the same parent id does not.
\<close>

theorem files_GET_lists_owner_and_parent_witness:
  "U1 \<noteq> []
   \<and> map_of [(lit ''userId'', U1), (lit ''parentId'', lit ''{00000000-0000-4000-8000-0000000000F1}'')]
        (lit ''userId'') = Some U1
   \<and> listed_parent
        (map_of [(lit ''userId'', U1),
                 (lit ''parentId'', lit ''{00000000-0000-4000-8000-0000000000F1}'')]
           (lit ''parentId'')) = Some (Some (example_id 0xF1))
   \<and> files_GET tbl0 (Some U1)
        [(lit ''userId'', U1), (lit ''parentId'', lit ''{00000000-0000-4000-8000-0000000000F1}'')] =
       NextResponse_json (Files_body [beach_jpg, old_jpg]) 200
   \<and> list_all (\<lambda>r. userId r = U1)
        (rows_of (files_GET tbl0 (Some U1)
           [(lit ''userId'', U1),
            (lit ''parentId'', lit ''{00000000-0000-4000-8000-0000000000F1}'')]))
   \<and> userId stray_jpg = U2 \<and> parentId stray_jpg = Some (example_id 0xF1)
   \<and> stray_jpg \<in> set tbl0"
proof -
  let ?sp = "[(lit ''userId'', U1),
              (lit ''parentId'', lit ''{00000000-0000-4000-8000-0000000000F1}'')]"
  have h2: "map_of ?sp (lit ''userId'') = Some U1" by simp
  have p: "listed_parent (map_of ?sp (lit ''parentId'')) = Some (Some (example_id 0xF1))"
    by (simp add: listed_parent_def example_spellings) (simp add: lit_def)
  have n: "nodes_of U1 (Some (example_id 0xF1)) tbl0 = [beach_jpg, old_jpg]"
    by (simp add: nodes_of_def example_defs lit_def)
  have s: "userId stray_jpg = U2 \<and> parentId stray_jpg = Some (example_id 0xF1)
           \<and> stray_jpg \<in> set tbl0"
    by (simp add: stray_jpg_def tbl0_def)
  from files_GET_lists_owner_and_parent [OF U1_nonempty h2, of tbl0] U1_nonempty h2 s
  show ?thesis
    unfolding p by (simp add: n list_all_iff)
qed

text \<open>
  The claim as stated fails for a \<^verbatim>\<open>parentId\<close> parameter that spells no uuid: for
  \<^verbatim>\<open>parentId=docs\<close> the query throws and the handler answers 500 instead of a
  listing; for the empty parameter \<^verbatim>\<open>parentId=\<close> it answers with the caller's root
  file, whose parentId is null.
\<close>

theorem files_GET_parentId_not_an_id:
  "files_GET tbl0 (Some U1) [(lit ''userId'', U1), (lit ''parentId'', lit ''docs'')] =
     NextResponse_json (Error_body ''Failed to fetch files'') 500
   \<and> files_GET [x_jpg] (Some U1) [(lit ''userId'', U1), (lit ''parentId'', [])] =
     NextResponse_json (Files_body [x_jpg]) 200
   \<and> parentId x_jpg = None"
proof -
  have a: "map_of [(lit ''userId'', U1), (lit ''parentId'', lit ''docs'')] (lit ''userId'') = Some U1"
    and b: "map_of [(lit ''userId'', U1), (lit ''parentId'', [])] (lit ''userId'') = Some U1"
    by simp_all
  have la: "listed_parent (map_of [(lit ''userId'', U1), (lit ''parentId'', lit ''docs'')]
              (lit ''parentId'')) = None"
    by (simp add: listed_parent_def example_spellings) (simp add: lit_def)
  have lb: "listed_parent (map_of [(lit ''userId'', U1), (lit ''parentId'', [])]
              (lit ''parentId'')) = Some None"
    by (simp add: listed_parent_def lit_def)
  have n: "nodes_of U1 None [x_jpg] = [x_jpg]" "parentId x_jpg = None"
    by (simp_all add: nodes_of_def x_jpg_def)
  show ?thesis
    unfolding files_GET_listed [OF U1_nonempty a] files_GET_listed [OF U1_nonempty b] la lb
    by (simp add: n)
qed

text \<open>
  Claim C2. Called with no \<^verbatim>\<open>parentId\<close> parameter by a caller who is signed in and
  asks for their own user id, the handler answers 200 with the rows selected by the
  condition \<^verbatim>\<open>and(eq(files.userId, userId), isNull(files.parentId))\<close>; these are exactly
  the caller's rows whose parentId is null; no row of the answer has a non-null parentId;
  and an equality comparison with null in place of \<^verbatim>\<open>isNull\<close> would select no row.
\<close>

theorem files_GET_root_uses_isNull:
  assumes "u \<noteq> []" and "map_of sp (lit ''userId'') = Some u"
    and "map_of sp (lit ''parentId'') = None"
  shows "(\<exists>rows. db_select tbl (And (Eq files_userId (JStr u)) (IsNull files_parentId)) = Some rows
            \<and> files_GET tbl (Some u) sp = NextResponse_json (Files_body rows) 200)
         \<and> db_select tbl (And (Eq files_userId (JStr u)) (IsNull files_parentId)) =
             Some (nodes_of u None tbl)
         \<and> (\<forall>r \<in> set (rows_of (files_GET tbl (Some u) sp)). parentId r = None)
         \<and> db_select tbl (And (Eq files_userId (JStr u)) (Eq files_parentId JNull)) = Some []"
proof -
  have ok: "files_GET tbl (Some u) sp =
              NextResponse_json (Files_body (nodes_of u None tbl)) 200"
    using assms by (simp add: files_GET_def Let_def select_root)
  have rows: "rows_of (files_GET tbl (Some u) sp) = nodes_of u None tbl"
    unfolding ok by (simp add: NextResponse_json_def rows_of_def)
  have "\<forall>r \<in> set (rows_of (files_GET tbl (Some u) sp)). parentId r = None"
    unfolding rows by (simp add: nodes_of_def)
  with ok select_root [of tbl u] select_eq_null [of tbl u] show ?thesis by simp
qed

text \<open>U1 lists the root: the folder Vacation and the root file, and nothing inside Vacation.\<close>

theorem files_GET_root_uses_isNull_witness:
  "U1 \<noteq> []
   \<and> map_of [(lit ''userId'', U1)] (lit ''userId'') = Some U1
   \<and> map_of [(lit ''userId'', U1)] (lit ''parentId'') = None
   \<and> files_GET tbl0 (Some U1) [(lit ''userId'', U1)] =
       NextResponse_json (Files_body [vacation, x_jpg]) 200
   \<and> list_all (\<lambda>r. parentId r = None) (rows_of (files_GET tbl0 (Some U1) [(lit ''userId'', U1)]))"
proof -
  let ?sp = "[(lit ''userId'', U1)]"
  have h2: "map_of ?sp (lit ''userId'') = Some U1" by simp
  have h3: "map_of ?sp (lit ''parentId'') = None" by (simp add: lit_def)
  have n: "nodes_of U1 None tbl0 = [vacation, x_jpg]"
    by (simp add: nodes_of_def example_defs lit_def)
  from files_GET_root_uses_isNull [OF U1_nonempty h2 h3, of tbl0] U1_nonempty h2 h3
  show ?thesis
    by (auto simp: n list_all_iff)
qed

text \<open>
  Claim C9. The listing does not look at the star and trash flags: for a caller who is
  signed in and asks for their own user id, a stored row with the caller's userId and the
  listed parent is in the answer whatever its isStarred and isTrash are.
\<close>

theorem files_GET_ignores_star_and_trash:
  assumes "u \<noteq> []" and "map_of sp (lit ''userId'') = Some u"
    and "userId r = u"
    and "listed_parent (map_of sp (lit ''parentId'')) = Some (parentId r)"
    and "r\<lparr>isStarred := s, isTrash := t\<rparr> \<in> set tbl"
  shows "r\<lparr>isStarred := s, isTrash := t\<rparr> \<in> set (rows_of (files_GET tbl (Some u) sp))"
  using assms(3,5) unfolding files_GET_listed [OF assms(1,2)] assms(4)
  by (simp add: NextResponse_json_def nodes_of_def rows_of_def)

text \<open>The trashed file and the starred file of U1 are both listed under Vacation.\<close>

theorem files_GET_ignores_star_and_trash_witness:
  "U1 \<noteq> []
   \<and> map_of [(lit ''userId'', U1), (lit ''parentId'', lit ''00000000-0000-4000-8000-0000000000f1'')]
        (lit ''userId'') = Some U1
   \<and> userId old_jpg = U1
   \<and> listed_parent
        (map_of [(lit ''userId'', U1),
                 (lit ''parentId'', lit ''00000000-0000-4000-8000-0000000000f1'')]
           (lit ''parentId'')) = Some (parentId old_jpg)
   \<and> old_jpg\<lparr>isStarred := False, isTrash := True\<rparr> \<in> set tbl0
   \<and> isTrash (old_jpg\<lparr>isStarred := False, isTrash := True\<rparr>)
   \<and> old_jpg\<lparr>isStarred := False, isTrash := True\<rparr>
       \<in> set (rows_of (files_GET tbl0 (Some U1)
                         [(lit ''userId'', U1),
                          (lit ''parentId'', lit ''00000000-0000-4000-8000-0000000000f1'')]))
   \<and> isStarred (old_jpg\<lparr>isStarred := True, isTrash := False\<rparr>)
   \<and> old_jpg\<lparr>isStarred := True, isTrash := False\<rparr>
       \<in> set (rows_of (files_GET (old_jpg\<lparr>isStarred := True, isTrash := False\<rparr> # tbl0) (Some U1)
                         [(lit ''userId'', U1),
                          (lit ''parentId'', lit ''00000000-0000-4000-8000-0000000000f1'')]))"
proof -
  let ?sp = "[(lit ''userId'', U1),
              (lit ''parentId'', lit ''00000000-0000-4000-8000-0000000000f1'')]"
  have h2: "map_of ?sp (lit ''userId'') = Some U1" by simp
  have h3: "userId old_jpg = U1" by (simp add: old_jpg_def)
  have h4: "listed_parent (map_of ?sp (lit ''parentId'')) = Some (parentId old_jpg)"
    by (simp add: listed_parent_def example_spellings old_jpg_def) (simp add: lit_def)
  have h5: "old_jpg\<lparr>isStarred := False, isTrash := True\<rparr> \<in> set tbl0"
    by (simp add: tbl0_def old_jpg_def)
  have h6: "old_jpg\<lparr>isStarred := True, isTrash := False\<rparr>
              \<in> set (old_jpg\<lparr>isStarred := True, isTrash := False\<rparr> # tbl0)"
    by simp
  from files_GET_ignores_star_and_trash [OF U1_nonempty h2 h3 h4 h5]
    files_GET_ignores_star_and_trash [OF U1_nonempty h2 h3 h4 h6]
    U1_nonempty h2 h3 h4 h5
  show ?thesis by simp
qed


subsection \<open>Folder creation\<close>

text \<open>
  Claim C3, as amended. For a folder-creation request of a caller who is signed in, whose
  body names the caller's own user id: when the name is absent, is not a string, or holds
  white space only, the handler answers 400 and leaves the table as it was. When the name
  is a string with something other than white space in it, no parentId is given (the
  member is absent or null), the trimmed name, the user id and the text of
  \<^verbatim>\<open>uuidv4()\<close> in the path are texts the store takes (no U+0000, no unpaired
  surrogate), and the first \<^verbatim>\<open>uuidv4()\<close> spells a uuid that is the id of no row,
  the handler answers 200 with the row it appended, whose parentId is null, whose isFolder
  is true and whose size is 0. When no parentId is given and the trimmed name holds
  U+0000, the store refuses the row, and the handler answers 500 and leaves the table as
  it was.
\<close>

theorem folders_create_POST_validates_name:
  assumes "u \<noteq> []" and "b \<noteq> JNull" and "b \<noteq> JUndefined"
    and "js_get b (lit ''userId'') = JStr u"
  shows "(js_get b (lit ''name'') = JUndefined
          \<or> (\<forall>s. js_get b (lit ''name'') \<noteq> JStr s)
          \<or> (\<exists>s. js_get b (lit ''name'') = JStr s \<and> (\<forall>c \<in> set s. is_white_space c))
          \<longrightarrow> folders_create_POST e tbl (Some u) (Some b) =
                (NextResponse_json (Error_body ''Folder name is required'') 400, tbl))
       \<and> (\<forall>s i. js_get b (lit ''name'') = JStr s \<and> \<not> (\<forall>c \<in> set s. is_white_space c)
               \<and> (js_get b (lit ''parentId'') = JUndefined \<or> js_get b (lit ''parentId'') = JNull)
               \<and> plain_text (trim s) \<and> plain_text u \<and> plain_text (uuid2 e)
               \<and> uuid_in (uuid1 e) = Some i \<and> i \<notin> id_col ` set tbl
          \<longrightarrow> (\<exists>r. folders_create_POST e tbl (Some u) (Some b) =
                      (NextResponse_json (Folder_body True ''Folder created successfully'' r) 200,
                       tbl @ [r])
                   \<and> parentId r = None \<and> isFolder r \<and> size_col r = 0
                   \<and> name r = Text (trim s) \<and> userId r = u \<and> id_col r = i))
       \<and> (\<forall>s. js_get b (lit ''name'') = JStr s
               \<and> (js_get b (lit ''parentId'') = JUndefined \<or> js_get b (lit ''parentId'') = JNull)
               \<and> 0 \<in> set (trim s)
          \<longrightarrow> folders_create_POST e tbl (Some u) (Some b) =
                (NextResponse_json (Error_body ''Failed to create folder'') 500, tbl))"
proof (intro conjI impI allI)
  assume "js_get b (lit ''name'') = JUndefined
          \<or> (\<forall>s. js_get b (lit ''name'') \<noteq> JStr s)
          \<or> (\<exists>s. js_get b (lit ''name'') = JStr s \<and> (\<forall>c \<in> set s. is_white_space c))"
  then have "\<forall>s. js_get b (lit ''name'') = JStr s \<longrightarrow> trim s = []"
    by (auto simp: trim_empty_iff)
  with assms show "folders_create_POST e tbl (Some u) (Some b) =
                (NextResponse_json (Error_body ''Folder name is required'') 400, tbl)"
    by (rule folders_create_no_name)
next
  fix s i
  assume a: "js_get b (lit ''name'') = JStr s \<and> \<not> (\<forall>c \<in> set s. is_white_space c)
               \<and> (js_get b (lit ''parentId'') = JUndefined \<or> js_get b (lit ''parentId'') = JNull)
               \<and> plain_text (trim s) \<and> plain_text u \<and> plain_text (uuid2 e)
               \<and> uuid_in (uuid1 e) = Some i \<and> i \<notin> id_col ` set tbl"
  then have n: "js_get b (lit ''name'') = JStr s" and t: "trim s \<noteq> []"
    and p: "js_get b (lit ''parentId'') = JUndefined \<or> js_get b (lit ''parentId'') = JNull"
    and x: "plain_text (trim s)" and i: "uuid_in (uuid1 e) = Some i" "i \<notin> id_col ` set tbl"
    by (auto simp: trim_empty_iff)
  from a have "plain_text (lit ''/folders/'' @ u @ lit ''/'' @ uuid2 e)"
    by (intro plain_text_append plain_literals) simp_all
  from folders_create_root [OF assms n t p x this i]
  show "\<exists>r. folders_create_POST e tbl (Some u) (Some b) =
                      (NextResponse_json (Folder_body True ''Folder created successfully'' r) 200,
                       tbl @ [r])
                   \<and> parentId r = None \<and> isFolder r \<and> size_col r = 0
                   \<and> name r = Text (trim s) \<and> userId r = u \<and> id_col r = i"
    by (simp add: Let_def)
next
  fix s
  assume a: "js_get b (lit ''name'') = JStr s
               \<and> (js_get b (lit ''parentId'') = JUndefined \<or> js_get b (lit ''parentId'') = JNull)
               \<and> 0 \<in> set (trim s)"
  then have n: "js_get b (lit ''name'') = JStr s" and t: "trim s \<noteq> []"
    and p: "js_get b (lit ''parentId'') = JUndefined \<or> js_get b (lit ''parentId'') = JNull"
    and z: "0 \<in> set (trim s)"
    by auto
  from assms n t p z show "folders_create_POST e tbl (Some u) (Some b) =
                (NextResponse_json (Error_body ''Failed to create folder'') 500, tbl)"
    by (rule folders_create_refused_name)
qed

text \<open>
  U1 asks for a folder named by two spaces and is refused; U1 asks for the folder
  \<open>Trips\<close> with a null parentId and gets it at the root level.
\<close>

theorem folders_create_POST_validates_name_witness:
  "U1 \<noteq> []
   \<and> js_get blank_request (lit ''userId'') = JStr U1
   \<and> js_get blank_request (lit ''name'') = JStr (lit ''  '')
   \<and> list_all is_white_space (lit ''  '')
   \<and> folders_create_POST env0 tbl0 (Some U1) (Some blank_request) =
       (NextResponse_json (Error_body ''Folder name is required'') 400, tbl0)
   \<and> js_get (folder_request (lit '' Trips '') U1 JNull) (lit ''userId'') = JStr U1
   \<and> js_get (folder_request (lit '' Trips '') U1 JNull) (lit ''name'') = JStr (lit '' Trips '')
   \<and> list_ex (\<lambda>c. \<not> is_white_space c) (lit '' Trips '')
   \<and> js_get (folder_request (lit '' Trips '') U1 JNull) (lit ''parentId'') = JNull
   \<and> plain_text (trim (lit '' Trips '')) \<and> plain_text U1 \<and> plain_text (uuid2 env0)
   \<and> uuid_in (uuid1 env0) = Some (example_id 0xF9)
   \<and> list_all (\<lambda>r. id_col r \<noteq> example_id 0xF9) tbl0
   \<and> (\<exists>r. folders_create_POST env0 tbl0 (Some U1)
             (Some (folder_request (lit '' Trips '') U1 JNull)) =
             (NextResponse_json (Folder_body True ''Folder created successfully'' r) 200,
              tbl0 @ [r])
          \<and> parentId r = None \<and> isFolder r \<and> size_col r = 0
          \<and> name r = Text (lit ''Trips'') \<and> id_col r = example_id 0xF9)"
proof -
  let ?b = "folder_request (lit '' Trips '') U1 JNull"
  have b1: "blank_request \<noteq> JNull" "blank_request \<noteq> JUndefined"
    and b2: "js_get blank_request (lit ''userId'') = JStr U1"
    and b3: "js_get blank_request (lit ''name'') = JStr (lit ''  '')"
    by (simp_all add: blank_request_def lit_def)
  have b4: "list_all is_white_space (lit ''  '')"
    by (simp add: lit_def is_white_space_def)
  have t1: "?b \<noteq> JNull" "?b \<noteq> JUndefined"
    and t2: "js_get ?b (lit ''userId'') = JStr U1"
    and t3: "js_get ?b (lit ''name'') = JStr (lit '' Trips '')"
    and t5: "js_get ?b (lit ''parentId'') = JNull"
    by (simp_all add: folder_request_def lit_def)
  have t4: "list_ex (\<lambda>c. \<not> is_white_space c) (lit '' Trips '')"
    by (simp add: lit_def is_white_space_def)
  have t6: "trim (lit '' Trips '') = lit ''Trips''"
    by (simp add: lit_def trim_def is_white_space_def)
  have t7: "plain_text (trim (lit '' Trips ''))" "plain_text U1" "plain_text (uuid2 env0)"
    unfolding t6 by (simp_all add: plain_text_def surrogate_defs lit_def U1_def env0_def)
  have t8: "uuid_in (uuid1 env0) = Some (example_id 0xF9)"
    by (simp add: env0_def example_spellings)
  have t9: "list_all (\<lambda>r. id_col r \<noteq> example_id 0xF9) tbl0"
    by (simp add: example_defs)
  note blank = folders_create_POST_validates_name
    [OF U1_nonempty b1 b2, of env0 tbl0, THEN conjunct1]
  note trips = folders_create_POST_validates_name
    [OF U1_nonempty t1 t2, of env0 tbl0, THEN conjunct2, THEN conjunct1, THEN spec, THEN spec,
     of "lit '' Trips ''" "example_id 0xF9"]
  have r1: "folders_create_POST env0 tbl0 (Some U1) (Some blank_request) =
       (NextResponse_json (Error_body ''Folder name is required'') 400, tbl0)"
    using blank b3 b4 by (simp add: list_all_iff)
  have r2: "\<exists>r. folders_create_POST env0 tbl0 (Some U1) (Some ?b) =
             (NextResponse_json (Folder_body True ''Folder created successfully'' r) 200,
              tbl0 @ [r])
          \<and> parentId r = None \<and> isFolder r \<and> size_col r = 0
          \<and> name r = Text (lit ''Trips'') \<and> id_col r = example_id 0xF9"
    using trips t3 t4 t5 t7 t8 example_ids_new(1) unfolding t6 by (auto simp: list_ex_iff)
  from U1_nonempty b2 b3 b4 r1 t2 t3 t4 t5 t7 t8 t9 r2 show ?thesis by blast
qed

text \<open>
  The claim as stated fails for a name with U+0000 in it: the name is a string with
  letters in it and no parentId is given, yet the store refuses the row, and the handler
  answers 500 and creates nothing.
\<close>

theorem folders_create_POST_name_refused:
  "js_get (folder_request nul_name U1 JNull) (lit ''userId'') = JStr U1
   \<and> js_get (folder_request nul_name U1 JNull) (lit ''name'') = JStr nul_name
   \<and> list_ex (\<lambda>c. \<not> is_white_space c) nul_name
   \<and> js_get (folder_request nul_name U1 JNull) (lit ''parentId'') = JNull
   \<and> folders_create_POST env0 tbl0 (Some U1) (Some (folder_request nul_name U1 JNull)) =
       (NextResponse_json (Error_body ''Failed to create folder'') 500, tbl0)"
proof -
  let ?b = "folder_request nul_name U1 JNull"
  have b: "?b \<noteq> JNull" "?b \<noteq> JUndefined" "js_get ?b (lit ''userId'') = JStr U1"
    "js_get ?b (lit ''name'') = JStr nul_name"
    by (simp_all add: folder_request_def lit_def)
  have p: "js_get ?b (lit ''parentId'') = JNull"
    by (simp add: folder_request_def lit_def)
  have t: "trim nul_name = nul_name"
    by (simp add: nul_name_def trim_def is_white_space_def)
  have n: "trim nul_name \<noteq> []" "0 \<in> set (trim nul_name)"
    unfolding t by (simp_all add: nul_name_def)
  have w: "list_ex (\<lambda>c. \<not> is_white_space c) nul_name"
    by (simp add: nul_name_def is_white_space_def)
  from p have "js_get ?b (lit ''parentId'') = JUndefined \<or> js_get ?b (lit ''parentId'') = JNull"
    by simp
  from folders_create_refused_name [OF U1_nonempty b n(1) this n(2), of env0 tbl0] b(3,4) w p
  show ?thesis by simp
qed

text \<open>
  Claim C4, as amended. For a folder-creation request of a caller who is signed in, whose
  body names the caller's own user id and a name with something other than white space in
  it: when the parentId spells a uuid and no node of the table has that id, that owner and
  isFolder true, the handler answers 404, not 401, and leaves the table as it was; a node
  with that id owned by another caller, and a node with that id that is a file, are two
  such cases. When a parentId is given (the member is neither absent nor null) that spells
  no uuid, the empty string among them, the store refuses it, and the handler answers 500
  and leaves the table as it was.
\<close>

theorem folders_create_POST_parent_not_found:
  assumes "u \<noteq> []" and "b \<noteq> JNull" and "b \<noteq> JUndefined"
    and "js_get b (lit ''userId'') = JStr u"
    and "js_get b (lit ''name'') = JStr s" and "\<not> (\<forall>c \<in> set s. is_white_space c)"
  shows "(\<forall>i. uuid_param (js_get b (lit ''parentId'')) = Some i
              \<and> \<not> parent_folder_exists tbl u i
          \<longrightarrow> folders_create_POST e tbl (Some u) (Some b) =
                (NextResponse_json (Error_body ''Parent folder not found'') 404, tbl))
       \<and> (js_get b (lit ''parentId'') \<noteq> JUndefined \<and> js_get b (lit ''parentId'') \<noteq> JNull
          \<and> uuid_param (js_get b (lit ''parentId'')) = None
          \<longrightarrow> folders_create_POST e tbl (Some u) (Some b) =
                (NextResponse_json (Error_body ''Failed to create folder'') 500, tbl))"
proof (intro conjI impI allI)
  fix i
  assume a: "uuid_param (js_get b (lit ''parentId'')) = Some i
              \<and> \<not> parent_folder_exists tbl u i"
  have t: "trim s \<noteq> []" using assms(6) by (simp add: trim_empty_iff)
  from a have p: "truthy (js_get b (lit ''parentId''))"
    by (auto dest: uuid_param_truthy)
  from a have i: "uuid_param (js_get b (lit ''parentId'')) = Some i"
    and x: "\<not> parent_folder_exists tbl u i"
    by simp_all
  from assms(1-5) t p i x show "folders_create_POST e tbl (Some u) (Some b) =
                (NextResponse_json (Error_body ''Parent folder not found'') 404, tbl)"
    by (rule folders_create_no_parent)
next
  assume a: "js_get b (lit ''parentId'') \<noteq> JUndefined \<and> js_get b (lit ''parentId'') \<noteq> JNull
          \<and> uuid_param (js_get b (lit ''parentId'')) = None"
  have t: "trim s \<noteq> []" using assms(6) by (simp add: trim_empty_iff)
  from a have p: "js_get b (lit ''parentId'') \<noteq> JUndefined" "js_get b (lit ''parentId'') \<noteq> JNull"
    "uuid_param (js_get b (lit ''parentId'')) = None"
    by simp_all
  from assms(1-5) t p show "folders_create_POST e tbl (Some u) (Some b) =
                (NextResponse_json (Error_body ''Failed to create folder'') 500, tbl)"
    by (rule folders_create_bad_parent)
qed

text \<open>
  U2 asks for a folder inside Vacation, a folder of U1; U1 asks for a folder inside the
  root file of U1. Both get 404 and the table stays as it was.
\<close>

theorem folders_create_POST_parent_not_found_witness:
  "U2 \<noteq> []
   \<and> js_get (folder_request (lit ''Docs'') U2 (JStr (lit ''00000000-0000-4000-8000-0000000000f1'')))
       (lit ''userId'') = JStr U2
   \<and> js_get (folder_request (lit ''Docs'') U2 (JStr (lit ''00000000-0000-4000-8000-0000000000f1'')))
       (lit ''name'') = JStr (lit ''Docs'')
   \<and> list_ex (\<lambda>c. \<not> is_white_space c) (lit ''Docs'')
   \<and> uuid_param
       (js_get (folder_request (lit ''Docs'') U2 (JStr (lit ''00000000-0000-4000-8000-0000000000f1'')))
          (lit ''parentId'')) = Some (example_id 0xF1)
   \<and> \<not> parent_folder_exists tbl0 U2 (example_id 0xF1)
   \<and> parent_folder_exists tbl0 U1 (example_id 0xF1)
   \<and> folders_create_POST env0 tbl0 (Some U2)
        (Some (folder_request (lit ''Docs'') U2
                 (JStr (lit ''00000000-0000-4000-8000-0000000000f1'')))) =
       (NextResponse_json (Error_body ''Parent folder not found'') 404, tbl0)
   \<and> id_col x_jpg = example_id 0x01 \<and> userId x_jpg = U1 \<and> \<not> isFolder x_jpg
   \<and> x_jpg \<in> set tbl0
   \<and> folders_create_POST env0 tbl0 (Some U1)
        (Some (folder_request (lit ''Docs'') U1
                 (JStr (lit ''00000000-0000-4000-8000-000000000001'')))) =
       (NextResponse_json (Error_body ''Parent folder not found'') 404, tbl0)"
proof -
  let ?b = "folder_request (lit ''Docs'') U2 (JStr (lit ''00000000-0000-4000-8000-0000000000f1''))"
  let ?c = "folder_request (lit ''Docs'') U1 (JStr (lit ''00000000-0000-4000-8000-000000000001''))"
  have b1: "?b \<noteq> JNull" "?b \<noteq> JUndefined"
    and b2: "js_get ?b (lit ''userId'') = JStr U2"
    and b3: "js_get ?b (lit ''name'') = JStr (lit ''Docs'')"
    and b4: "js_get ?b (lit ''parentId'') = JStr (lit ''00000000-0000-4000-8000-0000000000f1'')"
    by (simp_all add: folder_request_def lit_def)
  have c1: "?c \<noteq> JNull" "?c \<noteq> JUndefined"
    and c2: "js_get ?c (lit ''userId'') = JStr U1"
    and c3: "js_get ?c (lit ''name'') = JStr (lit ''Docs'')"
    and c4: "js_get ?c (lit ''parentId'') = JStr (lit ''00000000-0000-4000-8000-000000000001'')"
    by (simp_all add: folder_request_def lit_def)
  have b5: "uuid_param (js_get ?b (lit ''parentId'')) = Some (example_id 0xF1)"
    unfolding b4 by (simp add: example_spellings)
  have c5: "uuid_param (js_get ?c (lit ''parentId'')) = Some (example_id 0x01)"
    unfolding c4 by (simp add: example_spellings)
  have n: "list_ex (\<lambda>c. \<not> is_white_space c) (lit ''Docs'')"
    by (simp add: lit_def is_white_space_def)
  then have n': "\<not> (\<forall>c \<in> set (lit ''Docs''). is_white_space c)"
    by (simp add: list_ex_iff)
  have b6: "\<not> parent_folder_exists tbl0 U2 (example_id 0xF1)"
    by (simp add: parent_folder_exists_def example_defs lit_def)
  have c6: "\<not> parent_folder_exists tbl0 U1 (example_id 0x01)"
    by (simp add: parent_folder_exists_def example_defs lit_def)
  have v: "parent_folder_exists tbl0 U1 (example_id 0xF1)"
    by (simp add: parent_folder_exists_def example_defs lit_def)
  have x: "id_col x_jpg = example_id 0x01 \<and> userId x_jpg = U1 \<and> \<not> isFolder x_jpg
           \<and> x_jpg \<in> set tbl0"
    by (simp add: x_jpg_def tbl0_def)
  note other = folders_create_POST_parent_not_found
    [OF U2_nonempty b1 b2 b3 n', of tbl0 env0, THEN conjunct1, THEN spec, of "example_id 0xF1"]
  note inside = folders_create_POST_parent_not_found
    [OF U1_nonempty c1 c2 c3 n', of tbl0 env0, THEN conjunct1, THEN spec, of "example_id 0x01"]
  have r1: "folders_create_POST env0 tbl0 (Some U2) (Some ?b) =
       (NextResponse_json (Error_body ''Parent folder not found'') 404, tbl0)"
    using other b5 b6 by simp
  have r2: "folders_create_POST env0 tbl0 (Some U1) (Some ?c) =
       (NextResponse_json (Error_body ''Parent folder not found'') 404, tbl0)"
    using inside c5 c6 by simp
  from U2_nonempty b2 b3 n b5 b6 v r1 x r2 show ?thesis by blast
qed

text \<open>
  The claim as stated fails for a request whose parentId spells no uuid: no node has the
  id \<^verbatim>\<open>docs\<close>, and none the empty id, yet the handler does not answer 404: the
  store refuses the value, in the lookup of the parent or in the insert, and the handler
  answers 500.
\<close>

theorem folders_create_POST_parentId_not_an_id:
  "js_get (folder_request (lit ''Docs'') U1 (JStr (lit ''docs''))) (lit ''parentId'') =
     JStr (lit ''docs'')
   \<and> uuid_in (lit ''docs'') = None
   \<and> folders_create_POST env0 tbl0 (Some U1)
        (Some (folder_request (lit ''Docs'') U1 (JStr (lit ''docs'')))) =
       (NextResponse_json (Error_body ''Failed to create folder'') 500, tbl0)
   \<and> js_get (folder_request (lit ''Docs'') U1 (JStr [])) (lit ''parentId'') = JStr []
   \<and> uuid_in [] = None
   \<and> folders_create_POST env0 tbl0 (Some U1) (Some (folder_request (lit ''Docs'') U1 (JStr []))) =
       (NextResponse_json (Error_body ''Failed to create folder'') 500, tbl0)"
proof -
  let ?b = "folder_request (lit ''Docs'') U1 (JStr (lit ''docs''))"
  let ?c = "folder_request (lit ''Docs'') U1 (JStr [])"
  have b: "?b \<noteq> JNull" "?b \<noteq> JUndefined" "js_get ?b (lit ''userId'') = JStr U1"
    "js_get ?b (lit ''name'') = JStr (lit ''Docs'')"
    and b4: "js_get ?b (lit ''parentId'') = JStr (lit ''docs'')"
    by (simp_all add: folder_request_def lit_def)
  have c: "?c \<noteq> JNull" "?c \<noteq> JUndefined" "js_get ?c (lit ''userId'') = JStr U1"
    "js_get ?c (lit ''name'') = JStr (lit ''Docs'')"
    and c4: "js_get ?c (lit ''parentId'') = JStr []"
    by (simp_all add: folder_request_def lit_def)
  have n: "trim (lit ''Docs'') \<noteq> []"
    by (simp add: lit_def trim_def is_white_space_def)
  have r1: "folders_create_POST env0 tbl0 (Some U1) (Some ?b) =
       (NextResponse_json (Error_body ''Failed to create folder'') 500, tbl0)"
    by (rule folders_create_bad_parent [OF U1_nonempty b n]) (simp_all add: b4 example_spellings)
  have r2: "folders_create_POST env0 tbl0 (Some U1) (Some ?c) =
       (NextResponse_json (Error_body ''Failed to create folder'') 500, tbl0)"
    by (rule folders_create_bad_parent [OF U1_nonempty c n]) (simp_all add: c4 example_spellings)
  from b4 c4 r1 r2 example_spellings(5,6) show ?thesis by simp
qed

subsection \<open>Identity check\<close>

text \<open>
  Claim C5. When the userId of an upload-recording request's body differs from the user
  id of the session, the handler answers 401 and leaves the table as it was, whatever the
  table holds and whoever the named user is. The same comparison decides a folder-creation
  request, and a listing request through its \<^verbatim>\<open>userId\<close> parameter.
\<close>

theorem identity_mismatch_unauthorized:
  "(b \<noteq> JNull \<and> b \<noteq> JUndefined \<and> js_get b (lit ''userId'') \<noteq> nullable a
      \<longrightarrow> upload_POST e tbl a (Some b) =
            (NextResponse_json (Error_body ''Unauthorized'') 401, tbl)
          \<and> folders_create_POST e tbl a (Some b) =
            (NextResponse_json (Error_body ''Unauthorized'') 401, tbl))
   \<and> (nullable (map_of sp (lit ''userId'')) \<noteq> nullable a
      \<longrightarrow> files_GET tbl a sp = NextResponse_json (Error_body ''Unauthorized'') 401)"
  using upload_mismatch [of b a e tbl] folders_create_mismatch [of b a e tbl]
    files_GET_mismatch [of sp a tbl]
  by blast

text \<open>
  U1 is signed in and names U2, who owns rows of the table, in the body or in the query:
  each handler answers 401 and the table stays as it was.
\<close>

theorem identity_mismatch_unauthorized_witness:
  "js_get (upload_request U2 y_imagekit) (lit ''userId'') = JStr U2
   \<and> JStr U2 \<noteq> nullable (Some U1)
   \<and> list_ex (\<lambda>r. userId r = U2) tbl0
   \<and> upload_POST env0 tbl0 (Some U1) (Some (upload_request U2 y_imagekit)) =
       (NextResponse_json (Error_body ''Unauthorized'') 401, tbl0)
   \<and> folders_create_POST env0 tbl0 (Some U1) (Some (upload_request U2 y_imagekit)) =
       (NextResponse_json (Error_body ''Unauthorized'') 401, tbl0)
   \<and> files_GET tbl0 (Some U1) [(lit ''userId'', U2)] =
       NextResponse_json (Error_body ''Unauthorized'') 401"
proof -
  let ?b = "upload_request U2 y_imagekit"
  have b1: "?b \<noteq> JNull" "?b \<noteq> JUndefined"
    and b2: "js_get ?b (lit ''userId'') = JStr U2"
    by (simp_all add: upload_request_def lit_def)
  have d: "JStr U2 \<noteq> nullable (Some U1)"
    by (simp add: U1_def U2_def lit_def)
  have q: "nullable (map_of [(lit ''userId'', U2)] (lit ''userId'')) \<noteq> nullable (Some U1)"
    using d by simp
  have o: "list_ex (\<lambda>r. userId r = U2) tbl0"
    by (simp add: example_defs)
  from identity_mismatch_unauthorized
         [of ?b "Some U1" env0 tbl0 "[(lit ''userId'', U2)]"] b1 b2 d q o
  show ?thesis by simp
qed

subsection \<open>Recording an upload\<close>

text \<open>
  Claim C6, as amended. For an upload-recording request of a caller who is signed in,
  whose body names the caller's own user id: when the body has no truthy
  \<^verbatim>\<open>imagekit\<close> or that has no truthy \<^verbatim>\<open>url\<close>, the handler answers 400 and
  leaves the table as it was. When \<^verbatim>\<open>imagekit\<close> is an upload result as the
  interface describes it (the url a non-empty text, the size a 32-bit integer, the name,
  filePath, fileType and thumbnailUrl texts, each of them but the url absent or present),
  the user id is a text and the id the store generates is the id of no row, the handler
  appends one row with isFolder false and fileUrl the given url, and answers 200 with that
  row, its generated id and its timestamps in it. When building the default path throws,
  and when the size is a number that is no 32-bit integer, the handler answers 500 and
  leaves the table as it was.
\<close>

theorem upload_POST_validates_imagekit:
  assumes "u \<noteq> []" and "b \<noteq> JNull" and "b \<noteq> JUndefined"
    and "js_get b (lit ''userId'') = JStr u"
    and "js_get b (lit ''imagekit'') = ik"
  shows "(\<not> truthy ik \<or> \<not> truthy (js_get ik (lit ''url''))
          \<longrightarrow> upload_POST e tbl (Some u) (Some b) =
                (NextResponse_json (Error_body ''Invalid file upload data'') 400, tbl))
       \<and> (\<forall>url. upload_result ik url \<and> plain_text u \<and> gen_random_uuid e \<notin> id_col ` set tbl
          \<longrightarrow> (\<exists>r. upload_POST e tbl (Some u) (Some b) =
                      (NextResponse_json (File_body r) 200, tbl @ [r])
                   \<and> \<not> isFolder r \<and> fileUrl r = Text url
                   \<and> userId r = u \<and> id_col r = gen_random_uuid e
                   \<and> createdAt r = now e \<and> updatedAt r = now e))
       \<and> (truthy ik \<and> truthy (js_get ik (lit ''url''))
          \<and> \<not> truthy (js_get ik (lit ''filePath''))
          \<and> to_string (js_get ik (lit ''name'')) = None
          \<longrightarrow> upload_POST e tbl (Some u) (Some b) =
                (NextResponse_json (Error_body ''Failed to save file information'') 500, tbl))
       \<and> (\<forall>t. truthy ik \<and> truthy (js_get ik (lit ''url''))
              \<and> js_get ik (lit ''size'') = JNum t \<and> t \<noteq> lit ''0'' \<and> int4in t = None
          \<longrightarrow> upload_POST e tbl (Some u) (Some b) =
                (NextResponse_json (Error_body ''Failed to save file information'') 500, tbl))"
proof (intro conjI impI allI)
  assume "\<not> truthy ik \<or> \<not> truthy (js_get ik (lit ''url''))"
  then have "\<not> truthy (js_get b (lit ''imagekit''))
         \<or> \<not> truthy (js_get (js_get b (lit ''imagekit'')) (lit ''url''))"
    unfolding assms(5) .
  with assms(1-4) show "upload_POST e tbl (Some u) (Some b) =
                (NextResponse_json (Error_body ''Invalid file upload data'') 400, tbl)"
    by (rule upload_invalid)
next
  fix url
  assume a: "upload_result ik url \<and> plain_text u \<and> gen_random_uuid e \<notin> id_col ` set tbl"
  then have "js_get ik (lit ''url'') \<noteq> JUndefined"
    by (simp add: upload_result_def)
  then have t: "truthy ik" by (rule js_get_truthy)
  from a have r: "upload_result ik url" and p: "plain_text u"
    and i: "gen_random_uuid e \<notin> id_col ` set tbl"
    by simp_all
  from assms t r p i
  show "\<exists>r. upload_POST e tbl (Some u) (Some b) =
                      (NextResponse_json (File_body r) 200, tbl @ [r])
                   \<and> \<not> isFolder r \<and> fileUrl r = Text url
                   \<and> userId r = u \<and> id_col r = gen_random_uuid e
                   \<and> createdAt r = now e \<and> updatedAt r = now e"
    by (rule upload_persists)
next
  assume a: "truthy ik \<and> truthy (js_get ik (lit ''url''))
          \<and> \<not> truthy (js_get ik (lit ''filePath''))
          \<and> to_string (js_get ik (lit ''name'')) = None"
  then have t: "truthy ik" "truthy (js_get ik (lit ''url''))"
    "\<not> truthy (js_get ik (lit ''filePath''))" "to_string (js_get ik (lit ''name'')) = None"
    by simp_all
  from assms t show "upload_POST e tbl (Some u) (Some b) =
                (NextResponse_json (Error_body ''Failed to save file information'') 500, tbl)"
    by (rule upload_throws)
next
  fix t
  assume a: "truthy ik \<and> truthy (js_get ik (lit ''url''))
              \<and> js_get ik (lit ''size'') = JNum t \<and> t \<noteq> lit ''0'' \<and> int4in t = None"
  then have t: "truthy ik" "truthy (js_get ik (lit ''url''))"
    "truthy (js_get ik (lit ''size''))" "int_param (js_get ik (lit ''size'')) = None"
    by simp_all
  from assms t show "upload_POST e tbl (Some u) (Some b) =
                (NextResponse_json (Error_body ''Failed to save file information'') 500, tbl)"
    by (rule upload_refused_size)
qed

text \<open>
  U1 reports an upload without \<^verbatim>\<open>imagekit\<close> and is refused; U1 reports the upload
  of y.jpg and the row is stored.
\<close>

theorem upload_POST_validates_imagekit_witness:
  "U1 \<noteq> []
   \<and> js_get (upload_request U1 JUndefined) (lit ''userId'') = JStr U1
   \<and> js_get (upload_request U1 JUndefined) (lit ''imagekit'') = JUndefined
   \<and> upload_POST env0 tbl0 (Some U1) (Some (upload_request U1 JUndefined)) =
       (NextResponse_json (Error_body ''Invalid file upload data'') 400, tbl0)
   \<and> js_get (upload_request U1 y_imagekit) (lit ''userId'') = JStr U1
   \<and> js_get (upload_request U1 y_imagekit) (lit ''imagekit'') = y_imagekit
   \<and> upload_result y_imagekit (lit ''https://cdn/y.jpg'')
   \<and> plain_text U1
   \<and> list_all (\<lambda>r. id_col r \<noteq> gen_random_uuid env0) tbl0
   \<and> (\<exists>r. upload_POST env0 tbl0 (Some U1) (Some (upload_request U1 y_imagekit)) =
             (NextResponse_json (File_body r) 200, tbl0 @ [r])
          \<and> \<not> isFolder r \<and> fileUrl r = Text (lit ''https://cdn/y.jpg'')
          \<and> id_col r = example_id 0x09 \<and> createdAt r = 20 \<and> updatedAt r = 20)"
proof -
  let ?a = "upload_request U1 JUndefined"
  let ?b = "upload_request U1 y_imagekit"
  have a1: "?a \<noteq> JNull" "?a \<noteq> JUndefined"
    and a2: "js_get ?a (lit ''userId'') = JStr U1"
    and a3: "js_get ?a (lit ''imagekit'') = JUndefined"
    by (simp_all add: upload_request_def lit_def)
  have b1: "?b \<noteq> JNull" "?b \<noteq> JUndefined"
    and b2: "js_get ?b (lit ''userId'') = JStr U1"
    and b3: "js_get ?b (lit ''imagekit'') = y_imagekit"
    by (simp_all add: upload_request_def lit_def)
  have p: "plain_text U1"
    by (simp add: plain_text_def surrogate_defs U1_def lit_def)
  have e: "gen_random_uuid env0 = example_id 0x09" "now env0 = 20"
    by (simp_all add: env0_def)
  have i: "gen_random_uuid env0 \<notin> id_col ` set tbl0"
    unfolding e by (rule example_ids_new)
  have i': "list_all (\<lambda>r. id_col r \<noteq> gen_random_uuid env0) tbl0"
    by (simp add: example_defs)
  note refused = upload_POST_validates_imagekit
    [OF U1_nonempty a1 a2 a3, of env0 tbl0, THEN conjunct1]
  note stored = upload_POST_validates_imagekit
    [OF U1_nonempty b1 b2 b3, of env0 tbl0, THEN conjunct2, THEN conjunct1, THEN spec,
     of "lit ''https://cdn/y.jpg''"]
  have r1: "upload_POST env0 tbl0 (Some U1) (Some ?a) =
       (NextResponse_json (Error_body ''Invalid file upload data'') 400, tbl0)"
    using refused by simp
  have r2: "\<exists>r. upload_POST env0 tbl0 (Some U1) (Some ?b) =
             (NextResponse_json (File_body r) 200, tbl0 @ [r])
          \<and> \<not> isFolder r \<and> fileUrl r = Text (lit ''https://cdn/y.jpg'')
          \<and> id_col r = example_id 0x09 \<and> createdAt r = 20 \<and> updatedAt r = 20"
    using stored y_imagekit_result p i unfolding e by auto
  from U1_nonempty a2 a3 r1 b2 b3 y_imagekit_result p i' r2 show ?thesis by blast
qed

text \<open>
  The claim as stated fails for a request with a url, no filePath and a name that is an
  object with a member \<^verbatim>\<open>toString\<close>: the template literal of the default path throws
  a TypeError, and the handler answers 500 and stores nothing. It fails as well for a
  request with a url and the size 2147483648, which the integer column refuses.
\<close>

theorem upload_POST_path_throws:
  "truthy (js_get (upload_request U1 odd_imagekit) (lit ''imagekit''))
   \<and> truthy (js_get (js_get (upload_request U1 odd_imagekit) (lit ''imagekit'')) (lit ''url''))
   \<and> upload_POST env0 tbl0 (Some U1) (Some (upload_request U1 odd_imagekit)) =
       (NextResponse_json (Error_body ''Failed to save file information'') 500, tbl0)
   \<and> truthy (js_get (upload_request U1 big_imagekit) (lit ''imagekit''))
   \<and> truthy (js_get (js_get (upload_request U1 big_imagekit) (lit ''imagekit'')) (lit ''url''))
   \<and> upload_POST env0 tbl0 (Some U1) (Some (upload_request U1 big_imagekit)) =
       (NextResponse_json (Error_body ''Failed to save file information'') 500, tbl0)"
proof -
  let ?a = "upload_request U1 odd_imagekit"
  let ?b = "upload_request U1 big_imagekit"
  have a: "?a \<noteq> JNull" "?a \<noteq> JUndefined" "js_get ?a (lit ''userId'') = JStr U1"
    "js_get ?a (lit ''imagekit'') = odd_imagekit"
    by (simp_all add: upload_request_def lit_def)
  have b: "?b \<noteq> JNull" "?b \<noteq> JUndefined" "js_get ?b (lit ''userId'') = JStr U1"
    "js_get ?b (lit ''imagekit'') = big_imagekit"
    by (simp_all add: upload_request_def lit_def)
  have o: "truthy odd_imagekit" "truthy (js_get odd_imagekit (lit ''url''))"
    "\<not> truthy (js_get odd_imagekit (lit ''filePath''))"
    "to_string (js_get odd_imagekit (lit ''name'')) = None"
    by (simp_all add: odd_imagekit_def lit_def)
  have g: "truthy big_imagekit" "truthy (js_get big_imagekit (lit ''url''))"
    "truthy (js_get big_imagekit (lit ''size''))"
    by (simp_all add: big_imagekit_def lit_def)
  have s: "int_param (js_get big_imagekit (lit ''size'')) = None"
    by (simp add: big_imagekit_def int_eval)
  note r1 = upload_throws [OF U1_nonempty a o, of env0 tbl0]
  note r2 = upload_refused_size [OF U1_nonempty b g s, of env0 tbl0]
  from r1 r2 o(1,2) g(1,2) show ?thesis
    unfolding a(4) b(4) by simp
qed

text \<open>
  Claim C8. Whenever the upload-recording handler answers 200, the row it appended has a
  null parentId, whatever the body holds, a \<^verbatim>\<open>parentId\<close> member included.
\<close>

theorem upload_POST_parentId_null:
  "status (fst (upload_POST e tbl a rq)) = 200
   \<longrightarrow> (\<exists>r. upload_POST e tbl a rq = (NextResponse_json (File_body r) 200, tbl @ [r])
          \<and> parentId r = None)"
  using upload_POST_shape [of e tbl a rq] by auto

text \<open>U1 reports the upload of y.jpg with the parentId of Vacation; the row is stored at the root.\<close>

theorem upload_POST_parentId_null_witness:
  "js_get (upload_request U1 y_imagekit) (lit ''parentId'') =
     JStr (lit ''00000000-0000-4000-8000-0000000000f1'')
   \<and> uuid_in (lit ''00000000-0000-4000-8000-0000000000f1'') = Some (id_col vacation)
   \<and> status (fst (upload_POST env0 tbl0 (Some U1) (Some (upload_request U1 y_imagekit)))) = 200
   \<and> (\<exists>r. upload_POST env0 tbl0 (Some U1) (Some (upload_request U1 y_imagekit)) =
             (NextResponse_json (File_body r) 200, tbl0 @ [r])
          \<and> parentId r = None)
   \<and> snd (upload_POST env0 tbl0 (Some U1) (Some (upload_request U1 y_imagekit))) = tbl0 @ [y_jpg]
   \<and> parentId y_jpg = None"
proof -
  let ?b = "upload_request U1 y_imagekit"
  have p: "js_get ?b (lit ''parentId'') = JStr (lit ''00000000-0000-4000-8000-0000000000f1'')"
    by (simp add: upload_request_def lit_def)
  have v: "uuid_in (lit ''00000000-0000-4000-8000-0000000000f1'') = Some (id_col vacation)"
    by (simp add: example_spellings vacation_def)
  have s: "status (fst (upload_POST env0 tbl0 (Some U1) (Some ?b))) = 200"
    by (simp add: upload_y_jpg NextResponse_json_def)
  have t: "snd (upload_POST env0 tbl0 (Some U1) (Some ?b)) = tbl0 @ [y_jpg]"
    by (simp add: upload_y_jpg)
  have n: "parentId y_jpg = None"
    by (simp add: y_jpg_def)
  from upload_POST_parentId_null [of env0 tbl0 "Some U1" "Some ?b"] p v s t n
  show ?thesis by blast
qed

subsection \<open>What the handlers store\<close>

text \<open>
  Claim C7. The folder-creation handler stores nothing or appends one row, with size 0,
  fileUrl the empty string, type \<open>folder\<close>, isFolder true, isStarred false and isTrash
  false. The upload-recording handler stores nothing or appends one row, with isFolder
  false, isStarred false, isTrash false and a fileUrl that is the text of a truthy value,
  so not the empty string.
\<close>

theorem persisted_node_shape:
  "(snd (folders_create_POST e tbl a rq) = tbl
    \<or> (\<exists>r. snd (folders_create_POST e tbl a rq) = tbl @ [r]
           \<and> size_col r = 0 \<and> fileUrl r = Text [] \<and> type_col r = Text (lit ''folder'')
           \<and> isFolder r \<and> \<not> isStarred r \<and> \<not> isTrash r))
   \<and> (snd (upload_POST e tbl a rq') = tbl
    \<or> (\<exists>r. snd (upload_POST e tbl a rq') = tbl @ [r]
           \<and> \<not> isFolder r \<and> \<not> isStarred r \<and> \<not> isTrash r
           \<and> (\<exists>v. truthy v \<and> text_param e v = Some (fileUrl r)) \<and> fileUrl r \<noteq> Text []))"
proof
  show "snd (folders_create_POST e tbl a rq) = tbl
    \<or> (\<exists>r. snd (folders_create_POST e tbl a rq) = tbl @ [r]
           \<and> size_col r = 0 \<and> fileUrl r = Text [] \<and> type_col r = Text (lit ''folder'')
           \<and> isFolder r \<and> \<not> isStarred r \<and> \<not> isTrash r)"
    using folders_create_POST_shape [of e tbl a rq] by auto
  show "snd (upload_POST e tbl a rq') = tbl
    \<or> (\<exists>r. snd (upload_POST e tbl a rq') = tbl @ [r]
           \<and> \<not> isFolder r \<and> \<not> isStarred r \<and> \<not> isTrash r
           \<and> (\<exists>v. truthy v \<and> text_param e v = Some (fileUrl r)) \<and> fileUrl r \<noteq> Text [])"
    using upload_POST_shape [of e tbl a rq'] by auto
qed

text \<open>The folder Trips and the file y.jpg, as the two handlers store them.\<close>

theorem persisted_node_shape_witness:
  "snd (folders_create_POST env0 tbl0 (Some U1)
          (Some (folder_request (lit '' Trips '') U1 JNull))) = tbl0 @ [trips]
   \<and> size_col trips = 0 \<and> fileUrl trips = Text [] \<and> type_col trips = Text (lit ''folder'')
   \<and> isFolder trips \<and> \<not> isStarred trips \<and> \<not> isTrash trips
   \<and> snd (upload_POST env0 tbl0 (Some U1) (Some (upload_request U1 y_imagekit))) = tbl0 @ [y_jpg]
   \<and> \<not> isFolder y_jpg \<and> \<not> isStarred y_jpg \<and> \<not> isTrash y_jpg
   \<and> (\<exists>v. truthy v \<and> text_param env0 v = Some (fileUrl y_jpg)) \<and> fileUrl y_jpg \<noteq> Text []"
proof -
  have f: "snd (folders_create_POST env0 tbl0 (Some U1)
                 (Some (folder_request (lit '' Trips '') U1 JNull))) = tbl0 @ [trips]"
    by (simp add: create_trips)
  have g: "snd (upload_POST env0 tbl0 (Some U1) (Some (upload_request U1 y_imagekit))) =
             tbl0 @ [y_jpg]"
    by (simp add: upload_y_jpg)
  from persisted_node_shape
         [of env0 tbl0 "Some U1" "Some (folder_request (lit '' Trips '') U1 JNull)"
             "Some (upload_request U1 y_imagekit)"]
  show ?thesis unfolding f g by auto
qed

subsection \<open>Error outcomes\<close>

text \<open>
  Claim C10. When the folder-creation handler or the upload-recording handler answers
  401, 400 or 404, the table after the request is the table before it: nothing is
  inserted, and the one answer is the whole outcome of the request.
\<close>

theorem error_outcomes_insert_nothing:
  "(status (fst (folders_create_POST e tbl a rq)) \<in> {401, 400, 404}
      \<longrightarrow> snd (folders_create_POST e tbl a rq) = tbl)
   \<and> (status (fst (upload_POST e tbl a rq')) \<in> {401, 400, 404}
      \<longrightarrow> snd (upload_POST e tbl a rq') = tbl)"
  using folders_create_POST_shape [of e tbl a rq] upload_POST_shape [of e tbl a rq']
  by (auto simp: NextResponse_json_def)

text \<open>
  U1 asks for a folder inside a file and gets 404; U1 reports an upload without
  \<^verbatim>\<open>imagekit\<close> and gets 400. The table stays as it was.
\<close>

theorem error_outcomes_insert_nothing_witness:
  "status (fst (folders_create_POST env0 tbl0 (Some U1)
                  (Some (folder_request (lit ''Docs'') U1
                           (JStr (lit ''00000000-0000-4000-8000-000000000001'')))))) = 404
   \<and> snd (folders_create_POST env0 tbl0 (Some U1)
            (Some (folder_request (lit ''Docs'') U1
                     (JStr (lit ''00000000-0000-4000-8000-000000000001''))))) = tbl0
   \<and> status (fst (upload_POST env0 tbl0 (Some U1) (Some (upload_request U1 JUndefined)))) = 400
   \<and> snd (upload_POST env0 tbl0 (Some U1) (Some (upload_request U1 JUndefined))) = tbl0"
proof -
  let ?b = "folder_request (lit ''Docs'') U1 (JStr (lit ''00000000-0000-4000-8000-000000000001''))"
  let ?c = "upload_request U1 JUndefined"
  have f: "status (fst (folders_create_POST env0 tbl0 (Some U1) (Some ?b))) = 404"
    by (simp add: create_in_file NextResponse_json_def)
  have g: "status (fst (upload_POST env0 tbl0 (Some U1) (Some ?c))) = 400"
    by (simp add: upload_without_imagekit NextResponse_json_def)
  from error_outcomes_insert_nothing [of env0 tbl0 "Some U1" "Some ?b" "Some ?c"] f g
  show ?thesis by simp
qed

end
